theory Spec2Isabelle
  imports Complex_Main "HOL-Library.Multiset"
begin

section \<open>Errors and query results\<close>

text \<open>
  Every exception the modelled Python can raise is a value of \<open>py_error\<close>; a function
  that can raise returns \<open>py_error + 'a\<close> with \<open>Inl\<close> the exception.
  \<open>BackendError\<close> stands for whatever an external service (the embedding API, the
  ChromaDB collection, the PGVector store) raises.
\<close>

datatype py_error = KeyError | ZeroDivisionError | IndexError | ValueError
  | AttributeError | SQLAlchemyError | BackendError

text \<open>
  The answer of \<open>collection.query\<close> of src/main.py: \<open>results['ids'][0]\<close> and
  \<open>results['distances'][0]\<close>, two parallel lists. The ids are the strings
  \<open>str(i)\<close> that \<open>setup_chroma_db\<close> writes and that the callers turn back with
  \<open>int(id)\<close>; the model keeps the number. Distances are Python floats, modelled as
  reals (rounding is not modelled).
\<close>

record query_result =
  ids :: "nat list"
  distances :: "real list"

text \<open>
  The embedding call and the collections are external services. For one call of the
  program, \<open>emb\<close> stands for \<open>generate_gemini_embeddings([query_text])[0]\<close> and a
  collection is its \<open>query\<close> method, taking the embedding and \<open>n_results\<close>.
\<close>

type_synonym ('q, 'e) embedder = "'q \<Rightarrow> py_error + 'e"
type_synonym 'e collection = "'e \<Rightarrow> int \<Rightarrow> py_error + query_result"
type_synonym 'e collections = "string \<rightharpoonup> 'e collection"

text \<open>
  \<open>doc_scores\<close> is a Python dict: insertion ordered, one entry per key. It is an
  association list in insertion order.
\<close>

type_synonym doc_scores = "(nat \<times> real) list"

section \<open>src/main.py\<close>

text \<open>\<open>doc_scores.get(doc_id, 0)\<close>\<close>

fun get_score :: "doc_scores \<Rightarrow> nat \<Rightarrow> real" where
  "get_score [] k = 0"
| "get_score ((k', v) # m) k = (if k' = k then v else get_score m k)"

text \<open>
  \<open>doc_scores[doc_id] = v\<close>: an existing key keeps its position, a new key goes to
  the end.
\<close>

fun set_score :: "doc_scores \<Rightarrow> nat \<Rightarrow> real \<Rightarrow> doc_scores" where
  "set_score [] k v = [(k, v)]"
| "set_score ((k', v') # m) k v =
     (if k' = k then (k, v) # m else (k', v') # set_score m k v)"

text \<open>\<open>max_dist = max(distances) if distances else 1.0\<close>\<close>

definition max_dist :: "real list \<Rightarrow> real" where
  "max_dist ds = (if ds = [] then 1 else foldr max (butlast ds) (last ds))"

text \<open>
  The inner loop of \<open>multi_context_query\<close>,
  \<open>for i, doc_id in enumerate(results['ids'][0])\<close>: the i-th id is paired with
  \<open>distances[i]\<close> (IndexError when there is none), the float division raises
  ZeroDivisionError when \<open>max_dist\<close> is zero, and the weighted score is added to
  the entry of the document.
\<close>

fun score_loop :: "real \<Rightarrow> real \<Rightarrow> nat list \<Rightarrow> real list \<Rightarrow> doc_scores
    \<Rightarrow> py_error + doc_scores" where
  "score_loop md weight [] ds acc = Inr acc"
| "score_loop md weight (doc_id # rest) [] acc = Inl IndexError"
| "score_loop md weight (doc_id # rest) (d # ds) acc =
     (if md = 0 then Inl ZeroDivisionError
      else score_loop md weight rest ds
             (set_score acc doc_id (get_score acc doc_id + (1 - d / md) * weight)))"

text \<open>
  One iteration of the outer loop, for one \<open>(context_type, weight)\<close> of the weights:
  embed the query, look the collection up (KeyError when the view has none), query it
  for \<open>len(df)\<close> results and run the inner loop. Nothing is caught.
\<close>

definition query_view :: "('q, 'e) embedder \<Rightarrow> 'e collections \<Rightarrow> nat \<Rightarrow> 'q
    \<Rightarrow> string \<Rightarrow> real \<Rightarrow> doc_scores \<Rightarrow> py_error + doc_scores" where
  "query_view emb collections len_df query_text context_type weight acc =
     (case emb query_text of
        Inl e \<Rightarrow> Inl e
      | Inr query_embedding \<Rightarrow>
          (case collections context_type of
             None \<Rightarrow> Inl KeyError
           | Some collection \<Rightarrow>
               (case collection query_embedding (int len_df) of
                  Inl e \<Rightarrow> Inl e
                | Inr results \<Rightarrow>
                    score_loop (max_dist (distances results)) weight
                      (ids results) (distances results) acc)))"

text \<open>
  The outer loop, \<open>for context_type, weight in weights.items()\<close>: the weights are a
  dict, here the list of its items in insertion order.
\<close>

fun fuse_views :: "('q, 'e) embedder \<Rightarrow> 'e collections \<Rightarrow> nat \<Rightarrow> 'q
    \<Rightarrow> (string \<times> real) list \<Rightarrow> doc_scores \<Rightarrow> py_error + doc_scores" where
  "fuse_views emb collections len_df query_text [] acc = Inr acc"
| "fuse_views emb collections len_df query_text ((context_type, weight) # ws) acc =
     (case query_view emb collections len_df query_text context_type weight acc of
        Inl e \<Rightarrow> Inl e
      | Inr acc' \<Rightarrow> fuse_views emb collections len_df query_text ws acc')"

text \<open>
  \<open>xs[:n]\<close> for a Python int \<open>n\<close>: a negative \<open>n\<close> drops the last \<open>-n\<close>
  elements.
\<close>

definition py_prefix :: "'a list \<Rightarrow> int \<Rightarrow> 'a list" where
  "py_prefix xs n = (if 0 \<le> n then take (nat n) xs else take (length xs - nat (- n)) xs)"

text \<open>
  \<open>sorted(doc_scores.items(), key=lambda x: x[1], reverse=True)[:n_results]\<close>.
  Python's sort is stable, also with \<open>reverse=True\<close>: entries of equal score keep
  the order of the dict. \<open>sort_key\<close> on the negated score is that sort.
\<close>

definition top_docs :: "doc_scores \<Rightarrow> int \<Rightarrow> doc_scores" where
  "top_docs scores n_results = py_prefix (sort_key (\<lambda>x. - snd x) scores) n_results"

text \<open>
  \<open>df.iloc[doc_ids]\<close> with a list of non-negative positions: the rows in the order
  of the list, each with its position (the index label of the frame), IndexError when a
  position is out of bounds.
\<close>

definition iloc :: "'r list \<Rightarrow> nat list \<Rightarrow> py_error + (nat \<times> 'r) list" where
  "iloc df doc_ids =
     (if \<forall>i \<in> set doc_ids. i < length df then Inr (map (\<lambda>i. (i, df ! i)) doc_ids)
      else Inl IndexError)"

text \<open>The default of \<open>weights=None\<close>.\<close>

definition default_weights :: "(string \<times> real) list" where
  "default_weights =
     [(''full_context'', 3 / 10), (''geo_context'', 2 / 10), (''temporal_context'', 2 / 10),
      (''environmental_context'', 15 / 100), (''socioeconomic_context'', 15 / 100)]"

definition multi_context_query :: "('q, 'e) embedder \<Rightarrow> 'e collections \<Rightarrow> 'r list \<Rightarrow> 'q
    \<Rightarrow> (string \<times> real) list option \<Rightarrow> int \<Rightarrow> py_error + (nat \<times> 'r) list" where
  "multi_context_query emb collections df query_text weights n_results =
     (let ws = (case weights of None \<Rightarrow> default_weights | Some w \<Rightarrow> w) in
      case fuse_views emb collections (length df) query_text ws [] of
        Inl e \<Rightarrow> Inl e
      | Inr scores \<Rightarrow> iloc df (map fst (top_docs scores n_results)))"


section \<open>src/core/rag/vectore_store.py\<close>

text \<open>
  The logger calls are kept: the log is a list of levels and messages (the fixed part of
  each message; the interpolated values are left out).
\<close>

datatype log_level = INFO | WARNING | ERROR

type_synonym log_lines = "(log_level \<times> string) list"

type_synonym metadata_dict = "string \<rightharpoonup> string"

record document =
  page_content :: string
  metadata :: metadata_dict

record vector_store_config =
  collection_name :: string
  embedding_model :: string
  embedding_dimensions :: int
  use_jsonb :: bool
  task_type_query :: string
  task_type_document :: string
  connection_string :: string

text \<open>
  \<open>VectorStoreConfig.__init__\<close>, given the value of the environment variable
  DATABASE_URL: a missing or empty connection string raises ValueError.
\<close>

definition VectorStoreConfig :: "string option \<Rightarrow> string \<Rightarrow> string \<Rightarrow> int
    \<Rightarrow> py_error + vector_store_config" where
  "VectorStoreConfig database_url collection embedding_model_name dimensions =
     (case database_url of
        None \<Rightarrow> Inl ValueError
      | Some url \<Rightarrow>
          if url = [] then Inl ValueError
          else Inr \<lparr>collection_name = collection, embedding_model = embedding_model_name,
                    embedding_dimensions = dimensions, use_jsonb = True,
                    task_type_query = ''retrieval_query'',
                    task_type_document = ''retrieval_document'',
                    connection_string = url\<rparr>)"

text \<open>
  PGVector and the embedding model are libraries. \<open>pg_args\<close> is what the property
  \<open>VectorStore.vector_store\<close> hands to the constructor of PGVector: the document
  embeddings (model and task type), the collection name, the connection string and
  \<open>use_jsonb\<close>. The field \<open>embedding_dimensions\<close> of the configuration is not
  among them, and no other line of the sources reads it. The library is a parameter:
  its constructor and its three methods, over a state \<open>'vs\<close> of the collection.
\<close>

record pg_args =
  pg_embedding_model :: string
  pg_task_type :: string
  pg_collection_name :: string
  pg_connection :: string
  pg_use_jsonb :: bool

definition pg_args_of :: "vector_store_config \<Rightarrow> pg_args" where
  "pg_args_of cfg =
     \<lparr>pg_embedding_model = embedding_model cfg, pg_task_type = task_type_document cfg,
      pg_collection_name = collection_name cfg, pg_connection = connection_string cfg,
      pg_use_jsonb = use_jsonb cfg\<rparr>"

record 'vs pgvector =
  pg_init :: "pg_args \<Rightarrow> py_error option"
  pg_add_documents :: "pg_args \<Rightarrow> 'vs \<Rightarrow> document list \<Rightarrow> py_error + string list \<times> 'vs"
  pg_delete :: "pg_args \<Rightarrow> 'vs \<Rightarrow> string list option \<Rightarrow> metadata_dict \<Rightarrow> py_error + 'vs"
  pg_similarity_search :: "pg_args \<Rightarrow> 'vs \<Rightarrow> string \<Rightarrow> int \<Rightarrow> metadata_dict
      \<Rightarrow> py_error + document list"

text \<open>
  The incident of src/apps/incidents/models.py, with the fields the retrieval code
  reads. A UUID is a number; dates are kept as their ISO text.
\<close>

record incident =
  inc_id :: nat
  inc_title :: string
  inc_type :: string
  inc_date :: string
  inc_location :: metadata_dict
  inc_severity :: string
  inc_status :: string
  inc_created_at :: string
  inc_updated_at :: string

text \<open>
  The state the code works on: the rows of the primary store, the module global
  \<open>_incident_vector_store\<close> (the one VectorStore object, given by its
  configuration), whether that object has built its PGVector (\<open>_vector_store\<close>),
  the content of the PGVector collection, and the log.
\<close>

record 'vs world =
  db_rows :: "nat \<rightharpoonup> incident"
  incident_vector_store :: "vector_store_config option"
  pg_connected :: bool
  pg_index :: 'vs
  log_lines :: log_lines

definition logger :: "log_level \<Rightarrow> string \<Rightarrow> 'vs world \<Rightarrow> 'vs world" where
  "logger level msg w = w\<lparr>log_lines := log_lines w @ [(level, msg)]\<rparr>"

text \<open>The lazy property \<open>VectorStore.vector_store\<close>.\<close>

definition vector_store_property :: "'vs pgvector \<Rightarrow> vector_store_config \<Rightarrow> 'vs world
    \<Rightarrow> (py_error + unit) \<times> 'vs world" where
  "vector_store_property pg cfg w =
     (if pg_connected w then (Inr (), w)
      else case pg_init pg (pg_args_of cfg) of
             Some e \<Rightarrow> (Inl e, logger ERROR ''Failed to initialize vector store'' w)
           | None \<Rightarrow> (Inr (), logger INFO ''Vector store connected to collection''
                               (w\<lparr>pg_connected := True\<rparr>)))"

text \<open>\<open>VectorStore.similarity_search\<close>\<close>

definition similarity_search :: "'vs pgvector \<Rightarrow> vector_store_config \<Rightarrow> string \<Rightarrow> int
    \<Rightarrow> metadata_dict \<Rightarrow> 'vs world \<Rightarrow> (py_error + document list) \<times> 'vs world" where
  "similarity_search pg cfg query k search_filter w =
     (case vector_store_property pg cfg w of
        (Inl e, w1) \<Rightarrow> (Inl e, logger ERROR ''Error in similarity search'' w1)
      | (Inr u, w1) \<Rightarrow>
          (case pg_similarity_search pg (pg_args_of cfg) (pg_index w1) query k search_filter of
             Inl e \<Rightarrow> (Inl e, logger ERROR ''Error in similarity search'' w1)
           | Inr docs \<Rightarrow> (Inr docs, w1)))"

text \<open>\<open>VectorStore.add_documents\<close>\<close>

definition add_documents :: "'vs pgvector \<Rightarrow> vector_store_config \<Rightarrow> document list
    \<Rightarrow> 'vs world \<Rightarrow> (py_error + string list) \<times> 'vs world" where
  "add_documents pg cfg documents w =
     (if documents = [] then (Inr [], logger WARNING ''No documents to add'' w)
      else
        case vector_store_property pg cfg (logger INFO ''Adding documents to vector store'' w) of
          (Inl e, w1) \<Rightarrow> (Inl e, logger ERROR ''Error adding documents'' w1)
        | (Inr u, w1) \<Rightarrow>
            (case pg_add_documents pg (pg_args_of cfg) (pg_index w1) documents of
               Inl e \<Rightarrow> (Inl e, logger ERROR ''Error adding documents'' w1)
             | Inr (doc_ids, index') \<Rightarrow> (Inr doc_ids, w1\<lparr>pg_index := index'\<rparr>)))"

text \<open>\<open>VectorStore.delete\<close>, called with \<open>ids\<close> and \<open>filter=\<close>.\<close>

definition delete_documents :: "'vs pgvector \<Rightarrow> vector_store_config \<Rightarrow> string list option
    \<Rightarrow> metadata_dict \<Rightarrow> 'vs world \<Rightarrow> (py_error + unit) \<times> 'vs world" where
  "delete_documents pg cfg doc_ids delete_filter w =
     (case vector_store_property pg cfg w of
        (Inl e, w1) \<Rightarrow> (Inl e, logger ERROR ''Error deleting documents'' w1)
      | (Inr u, w1) \<Rightarrow>
          (case pg_delete pg (pg_args_of cfg) (pg_index w1) doc_ids delete_filter of
             Inl e \<Rightarrow> (Inl e, logger ERROR ''Error deleting documents'' w1)
           | Inr index' \<Rightarrow>
               (Inr (), logger INFO ''Deleted documents from vector store''
                          (w1\<lparr>pg_index := index'\<rparr>))))"

section \<open>src/core/rag/incidents_vectorstore.py\<close>

text \<open>
  What the code takes from its environment: the variable DATABASE_URL, \<open>str\<close> of
  a UUID, the constructor \<open>UUID(s)\<close> (\<open>None\<close> when it raises ValueError), and the
  text that \<open>incident_to_document\<close> formats as page content.
\<close>

record runtime =
  database_url :: "string option"
  str_uuid :: "nat \<Rightarrow> string"
  parse_uuid :: "string \<Rightarrow> nat option"
  content_text :: "incident \<Rightarrow> string"

definition get_incident_vector_store :: "runtime \<Rightarrow> 'vs world
    \<Rightarrow> (py_error + vector_store_config) \<times> 'vs world" where
  "get_incident_vector_store rt w =
     (case incident_vector_store w of
        Some cfg \<Rightarrow> (Inr cfg, w)
      | None \<Rightarrow>
          (case VectorStoreConfig (database_url rt) ''incidents'' ''models/text-embedding-004'' 768 of
             Inl e \<Rightarrow> (Inl e, w)
           | Inr cfg \<Rightarrow>
               (Inr cfg,
                logger INFO ''Created incident vector store''
                  (logger INFO ''Initialized VectorStore with collection''
                     (w\<lparr>incident_vector_store := Some cfg, pg_connected := False\<rparr>)))))"

text \<open>\<open>d.get(key, default)\<close>\<close>

definition dict_get :: "metadata_dict \<Rightarrow> string \<Rightarrow> string \<Rightarrow> string" where
  "dict_get d key dflt = (case d key of None \<Rightarrow> dflt | Some v \<Rightarrow> v)"

definition incident_to_document :: "runtime \<Rightarrow> incident \<Rightarrow> document" where
  "incident_to_document rt inc =
     \<lparr>page_content = content_text rt inc,
      metadata =
        [''id'' \<mapsto> str_uuid rt (inc_id inc),
         ''type'' \<mapsto> inc_type inc,
         ''date'' \<mapsto> inc_date inc,
         ''severity'' \<mapsto> inc_severity inc,
         ''status'' \<mapsto> inc_status inc,
         ''district'' \<mapsto> dict_get (inc_location inc) ''district'' ''unknown'',
         ''neighborhood'' \<mapsto> dict_get (inc_location inc) ''neighborhood'' ''unknown'',
         ''created_at'' \<mapsto> inc_created_at inc,
         ''updated_at'' \<mapsto> inc_updated_at inc]\<rparr>"

text \<open>
  The handler shared by the three sync functions: two error lines (message and
  traceback), then \<open>raise\<close>.
\<close>

definition log_and_reraise :: "string \<Rightarrow> py_error \<Rightarrow> 'vs world \<Rightarrow> (py_error + unit) \<times> 'vs world" where
  "log_and_reraise msg e w = (Inl e, logger ERROR ''traceback'' (logger ERROR msg w))"

definition add_incident_to_vector_store :: "runtime \<Rightarrow> 'vs pgvector \<Rightarrow> incident \<Rightarrow> 'vs world
    \<Rightarrow> (py_error + unit) \<times> 'vs world" where
  "add_incident_to_vector_store rt pg inc w =
     (case get_incident_vector_store rt w of
        (Inl e, w1) \<Rightarrow> log_and_reraise ''Error adding incident to vector store'' e w1
      | (Inr cfg, w1) \<Rightarrow>
          (case add_documents pg cfg [incident_to_document rt inc] w1 of
             (Inl e, w2) \<Rightarrow> log_and_reraise ''Error adding incident to vector store'' e w2
           | (Inr doc_ids, w2) \<Rightarrow> (Inr (), logger INFO ''Added incident to vector store'' w2)))"

definition update_incident_in_vector_store :: "runtime \<Rightarrow> 'vs pgvector \<Rightarrow> incident
    \<Rightarrow> 'vs world \<Rightarrow> (py_error + unit) \<times> 'vs world" where
  "update_incident_in_vector_store rt pg inc w =
     (case get_incident_vector_store rt w of
        (Inl e, w1) \<Rightarrow> log_and_reraise ''Error updating incident in vector store'' e w1
      | (Inr cfg, w1) \<Rightarrow>
          (case delete_documents pg cfg None [''id'' \<mapsto> str_uuid rt (inc_id inc)] w1 of
             (Inl e, w2) \<Rightarrow> log_and_reraise ''Error updating incident in vector store'' e w2
           | (Inr u, w2) \<Rightarrow>
               (case add_documents pg cfg [incident_to_document rt inc] w2 of
                  (Inl e, w3) \<Rightarrow> log_and_reraise ''Error updating incident in vector store'' e w3
                | (Inr doc_ids, w3) \<Rightarrow>
                    (Inr (), logger INFO ''Updated incident in vector store'' w3))))"

definition delete_incident_from_vector_store :: "runtime \<Rightarrow> 'vs pgvector \<Rightarrow> nat
    \<Rightarrow> 'vs world \<Rightarrow> (py_error + unit) \<times> 'vs world" where
  "delete_incident_from_vector_store rt pg incident_id w =
     (case get_incident_vector_store rt w of
        (Inl e, w1) \<Rightarrow> log_and_reraise ''Error deleting incident from vector store'' e w1
      | (Inr cfg, w1) \<Rightarrow>
          (case delete_documents pg cfg None [''id'' \<mapsto> str_uuid rt incident_id] w1 of
             (Inl e, w2) \<Rightarrow> log_and_reraise ''Error deleting incident from vector store'' e w2
           | (Inr u, w2) \<Rightarrow> (Inr (), logger INFO ''Deleted incident from vector store'' w2)))"

text \<open>
  One entry of the list that \<open>get_similar_incidents\<close> returns. \<open>doc.metadata[key]\<close>
  raises KeyError for a missing key; only the score has a default.
\<close>

record similar_meta =
  sm_id :: string
  sm_score :: string
  sm_type :: string
  sm_date :: string
  sm_severity :: string
  sm_district :: string

definition doc_meta :: "document \<Rightarrow> py_error + similar_meta" where
  "doc_meta doc =
     (case metadata doc ''id'' of None \<Rightarrow> Inl KeyError | Some i \<Rightarrow>
      case metadata doc ''type'' of None \<Rightarrow> Inl KeyError | Some t \<Rightarrow>
      case metadata doc ''date'' of None \<Rightarrow> Inl KeyError | Some d \<Rightarrow>
      case metadata doc ''severity'' of None \<Rightarrow> Inl KeyError | Some s \<Rightarrow>
      case metadata doc ''district'' of None \<Rightarrow> Inl KeyError | Some di \<Rightarrow>
        Inr \<lparr>sm_id = i, sm_score = dict_get (metadata doc) ''score'' ''1.0'', sm_type = t,
             sm_date = d, sm_severity = s, sm_district = di\<rparr>)"

fun doc_metas :: "document list \<Rightarrow> py_error + similar_meta list" where
  "doc_metas [] = Inr []"
| "doc_metas (doc # docs) =
     (case doc_meta doc of
        Inl e \<Rightarrow> Inl e
      | Inr m \<Rightarrow> (case doc_metas docs of Inl e \<Rightarrow> Inl e | Inr ms \<Rightarrow> Inr (m # ms)))"

text \<open>The body of the \<open>try\<close> of \<open>get_similar_incidents\<close>.\<close>

definition get_similar_incidents_try :: "runtime \<Rightarrow> 'vs pgvector \<Rightarrow> string
    \<Rightarrow> metadata_dict option \<Rightarrow> int \<Rightarrow> 'vs world
    \<Rightarrow> (py_error + similar_meta list) \<times> 'vs world" where
  "get_similar_incidents_try rt pg query filters k w =
     (case get_incident_vector_store rt w of
        (Inl e, w1) \<Rightarrow> (Inl e, w1)
      | (Inr cfg, w1) \<Rightarrow>
          (let search_filter =
                 (case filters of
                    None \<Rightarrow> Map.empty
                  | Some f \<Rightarrow> if f = Map.empty then Map.empty else f)
           in case similarity_search pg cfg query k search_filter w1 of
                (Inl e, w2) \<Rightarrow> (Inl e, w2)
              | (Inr documents, w2) \<Rightarrow> (doc_metas documents, w2)))"

text \<open>
  \<open>get_similar_incidents\<close>: the \<open>try\<close> and its handler \<open>except Exception\<close>, which
  logs two error lines and returns the empty list.
\<close>

definition get_similar_incidents :: "runtime \<Rightarrow> 'vs pgvector \<Rightarrow> string
    \<Rightarrow> metadata_dict option \<Rightarrow> int \<Rightarrow> 'vs world
    \<Rightarrow> (py_error + similar_meta list) \<times> 'vs world" where
  "get_similar_incidents rt pg query filters k w =
     (case get_similar_incidents_try rt pg query filters k w of
        (Inl e, w1) \<Rightarrow>
          (Inr [], logger ERROR ''traceback''
                     (logger ERROR ''Error searching for similar incidents'' w1))
      | (Inr metas, w1) \<Rightarrow> (Inr metas, w1))"

section \<open>src/apps/incidents/services.py\<close>

text \<open>
  The three mutating operations of \<open>IncidentService\<close>. \<open>commit_fails\<close> says whether
  the session raises SQLAlchemyError at the commit; the handler then rolls back and
  raises ValueError. The lines that build the new incident from the request
  (\<open>make_incident\<close>, with \<open>uuid4\<close> and \<open>datetime.fromisoformat\<close>, which can raise
  ValueError) and that copy the fields of an update (\<open>apply_update\<close>) are parameters.
  \<open>_format_incident\<close> returns the fields of the incident; the model returns the
  incident.
\<close>

definition create_incident :: "runtime \<Rightarrow> 'vs pgvector \<Rightarrow> bool \<Rightarrow> ('d \<Rightarrow> py_error + incident)
    \<Rightarrow> 'd \<Rightarrow> 'vs world \<Rightarrow> (py_error + incident) \<times> 'vs world" where
  "create_incident rt pg commit_fails make_incident incident_data w =
     (case make_incident incident_data of
        Inl e \<Rightarrow> (Inl e, w)
      | Inr inc \<Rightarrow>
          if commit_fails
          then (Inl ValueError, logger ERROR ''Database error in create_incident'' w)
          else
            (case add_incident_to_vector_store rt pg inc
                    (w\<lparr>db_rows := (db_rows w)(inc_id inc \<mapsto> inc)\<rparr>) of
               (Inl e, w1) \<Rightarrow>
                 (Inr inc,
                  logger ERROR ''Vector store update failed, but incident was created'' w1)
             | (Inr u, w1) \<Rightarrow> (Inr inc, w1)))"

definition update_incident :: "runtime \<Rightarrow> 'vs pgvector \<Rightarrow> bool
    \<Rightarrow> ('d \<Rightarrow> incident \<Rightarrow> py_error + incident)
    \<Rightarrow> nat \<Rightarrow> 'd \<Rightarrow> 'vs world \<Rightarrow> (py_error + incident option) \<times> 'vs world" where
  "update_incident rt pg commit_fails apply_update incident_id incident_data w =
     (case db_rows w incident_id of
        None \<Rightarrow> (Inr None, w)
      | Some inc \<Rightarrow>
          (case apply_update incident_data inc of
             Inl e \<Rightarrow> (Inl e, w)
           | Inr inc' \<Rightarrow>
               if commit_fails
               then (Inl ValueError, logger ERROR ''Database error in update_incident'' w)
               else
                 (case update_incident_in_vector_store rt pg inc'
                         (w\<lparr>db_rows := (db_rows w)(incident_id \<mapsto> inc')\<rparr>) of
                    (Inl e, w1) \<Rightarrow>
                      (Inr (Some inc'),
                       logger ERROR ''Vector store update failed, but incident was updated'' w1)
                  | (Inr u, w1) \<Rightarrow> (Inr (Some inc'), w1))))"

definition delete_incident :: "runtime \<Rightarrow> 'vs pgvector \<Rightarrow> bool \<Rightarrow> nat \<Rightarrow> 'vs world
    \<Rightarrow> (py_error + bool) \<times> 'vs world" where
  "delete_incident rt pg commit_fails incident_id w =
     (case db_rows w incident_id of
        None \<Rightarrow> (Inr False, w)
      | Some inc \<Rightarrow>
          if commit_fails
          then (Inl ValueError, logger ERROR ''Database error in delete_incident'' w)
          else
            (case delete_incident_from_vector_store rt pg incident_id
                    (w\<lparr>db_rows := (db_rows w)(incident_id := None)\<rparr>) of
               (Inl e, w1) \<Rightarrow>
                 (Inr True,
                  logger ERROR ''Vector store deletion failed, but incident was deleted'' w1)
             | (Inr u, w1) \<Rightarrow> (Inr True, w1)))"

section \<open>src/apps/analytics/routes.py\<close>

text \<open>
  The route \<open>get_similar_incidents_analysis\<close>. An HTTPException is a value of
  \<open>http_error\<close>; \<open>k\<close> is declared \<open>Query(5, ge=1, le=20)\<close>, so a value outside
  that range is answered with status 422 before the body runs. Every exception of the
  body that is no HTTPException is caught by \<open>except Exception\<close> and answered with
  status 500.
\<close>

datatype http_error = HTTP_400 | HTTP_404 | HTTP_422 | HTTP_500

record 'a similar_response =
  source_incident :: incident
  similar_incidents :: "(incident \<times> string) list"
  analysis :: 'a

text \<open>
  The loop that resolves the found ids: \<open>UUID(inc_meta["id"])\<close> raises ValueError
  for a string that is no UUID, and an id without a row is skipped.
\<close>

fun resolve_similar :: "runtime \<Rightarrow> (nat \<rightharpoonup> incident) \<Rightarrow> similar_meta list
    \<Rightarrow> py_error + (incident \<times> string) list" where
  "resolve_similar rt table [] = Inr []"
| "resolve_similar rt table (inc_meta # rest) =
     (case parse_uuid rt (sm_id inc_meta) of
        None \<Rightarrow> Inl ValueError
      | Some inc_uuid \<Rightarrow>
          (case resolve_similar rt table rest of
             Inl e \<Rightarrow> Inl e
           | Inr found \<Rightarrow>
               (case table inc_uuid of
                  None \<Rightarrow> Inr found
                | Some inc \<Rightarrow> Inr ((inc, sm_score inc_meta) # found))))"

text \<open>The f-string that the route searches the index with.\<close>

definition search_query :: "incident \<Rightarrow> string" where
  "search_query source =
     ''Type: '' @ inc_type source @ '', District: ''
       @ dict_get (inc_location source) ''district'' []
       @ '', Severity: '' @ inc_severity source"

text \<open>
  \<open>AnalyticsService.analyze_incident_similarities(...)\<close>: the class
  \<open>AnalyticsService\<close> of src/core/rag/analytics_service.py defines no attribute of
  that name (its methods are \<open>generate_predictive_analysis\<close>,
  \<open>generate_crime_statistics\<close>, \<open>analyze_time_patterns\<close>,
  \<open>generate_heatmap_data\<close>, \<open>generate_trend_analysis\<close> and their helpers), so
  the attribute lookup raises AttributeError.
\<close>

definition analyze_incident_similarities :: "incident \<Rightarrow> (incident \<times> string) list
    \<Rightarrow> py_error + 'a" where
  "analyze_incident_similarities source similar_incidents_data = Inl AttributeError"

definition get_similar_incidents_analysis :: "runtime \<Rightarrow> 'vs pgvector
    \<Rightarrow> string \<Rightarrow> int \<Rightarrow> 'vs world \<Rightarrow> (http_error + 'a similar_response) \<times> 'vs world" where
  "get_similar_incidents_analysis rt pg incident_id k w =
     (if k < 1 \<or> 20 < k then (Inl HTTP_422, w)
      else
        case parse_uuid rt incident_id of
          None \<Rightarrow> (Inl HTTP_400, w)
        | Some incident_uuid \<Rightarrow>
            (case db_rows w incident_uuid of
               None \<Rightarrow> (Inl HTTP_404, w)
             | Some source \<Rightarrow>
                 (case get_similar_incidents rt pg (search_query source) None (k + 1) w of
                    (Inl e, w1) \<Rightarrow> (Inl HTTP_500, w1)
                  | (Inr found, w1) \<Rightarrow>
                         (let similar_incidents_meta =
                                py_prefix
                                  (filter (\<lambda>inc. sm_id inc \<noteq> str_uuid rt incident_uuid) found) k
                          in case resolve_similar rt (db_rows w1) similar_incidents_meta of
                               Inl e \<Rightarrow> (Inl HTTP_500, w1)
                             | Inr similar_incidents_data \<Rightarrow>
                                 (case analyze_incident_similarities source similar_incidents_data of
                                    Inl e \<Rightarrow> (Inl HTTP_500, w1)
                                  | Inr a \<Rightarrow>
                                      (Inr \<lparr>source_incident = source,
                                            similar_incidents = similar_incidents_data,
                                            analysis = a\<rparr>, w1))))))"

section \<open>The fused score, as a formula\<close>

text \<open>
  What one view gives one record \<open>k\<close>: the normalised score
  \<open>1 - distance / max_dist\<close> of the record in the view's result, times the weight
  of the view, and nothing when the record is not among the view's candidates. These
  definitions state the result of the loops; they are compared with the loops below.
\<close>

fun contribution :: "real \<Rightarrow> real \<Rightarrow> nat list \<Rightarrow> real list \<Rightarrow> nat \<Rightarrow> real" where
  "contribution md weight [] ds k = 0"
| "contribution md weight (doc_id # rest) [] k = 0"
| "contribution md weight (doc_id # rest) (d # ds) k =
     (if doc_id = k then (1 - d / md) * weight else contribution md weight rest ds k)"

text \<open>The result a view's collection gives for the query, when nothing raises.\<close>

definition view_result :: "('q, 'e) embedder \<Rightarrow> 'e collections \<Rightarrow> nat \<Rightarrow> 'q \<Rightarrow> string
    \<Rightarrow> query_result option" where
  "view_result emb collections len_df query_text context_type =
     (case emb query_text of
        Inl e \<Rightarrow> None
      | Inr query_embedding \<Rightarrow>
          (case collections context_type of
             None \<Rightarrow> None
           | Some collection \<Rightarrow>
               (case collection query_embedding (int len_df) of
                  Inl e \<Rightarrow> None
                | Inr results \<Rightarrow> Some results)))"

definition view_score :: "('q, 'e) embedder \<Rightarrow> 'e collections \<Rightarrow> nat \<Rightarrow> 'q \<Rightarrow> string
    \<Rightarrow> real \<Rightarrow> nat \<Rightarrow> real" where
  "view_score emb collections len_df query_text context_type weight k =
     (case view_result emb collections len_df query_text context_type of
        None \<Rightarrow> 0
      | Some r \<Rightarrow> contribution (max_dist (distances r)) weight (ids r) (distances r) k)"

text \<open>
  The exception that the embedding call, the lookup of the collection or the query of
  the collection raises for a view, if one of them does.
\<close>

definition view_failure :: "('q, 'e) embedder \<Rightarrow> 'e collections \<Rightarrow> nat \<Rightarrow> 'q \<Rightarrow> string
    \<Rightarrow> py_error option" where
  "view_failure emb collections len_df query_text context_type =
     (case emb query_text of
        Inl e \<Rightarrow> Some e
      | Inr query_embedding \<Rightarrow>
          (case collections context_type of
             None \<Rightarrow> Some KeyError
           | Some collection \<Rightarrow>
               (case collection query_embedding (int len_df) of
                  Inl e \<Rightarrow> Some e
                | Inr results \<Rightarrow> None)))"

text \<open>A key is appended to a list of keys unless the list holds it.\<close>

definition add_new :: "nat list \<Rightarrow> nat \<Rightarrow> nat list" where
  "add_new ks k = (if k \<in> set ks then ks else ks @ [k])"

text \<open>
  The order in which the loops meet the records: the ids of the views' results, view
  after view in the order of the weights, each id at its first occurrence.
\<close>

definition first_met_order :: "('q, 'e) embedder \<Rightarrow> 'e collections \<Rightarrow> nat \<Rightarrow> 'q
    \<Rightarrow> (string \<times> real) list \<Rightarrow> nat list" where
  "first_met_order emb collections len_df query_text ws =
     foldl add_new []
       (concat (map (\<lambda>(context_type, weight).
                       case view_result emb collections len_df query_text context_type of
                         None \<Rightarrow> []
                       | Some r \<Rightarrow> ids r) ws))"

section \<open>Fixtures for concrete runs\<close>

text \<open>
  An embedding service that answers and one that is down; a collection that holds a
  fixed ranking for the query and returns its first \<open>n_results\<close> entries, and a
  collection that raises.
\<close>

definition emb_ok :: "(string, nat) embedder" where
  "emb_ok = (\<lambda>_. Inr 0)"

definition fixed_collection :: "nat list \<Rightarrow> real list \<Rightarrow> nat collection" where
  "fixed_collection is ds =
     (\<lambda>_ n. Inr \<lparr>ids = take (nat n) is, distances = take (nat n) ds\<rparr>)"

definition down_collection :: "nat collection" where
  "down_collection = (\<lambda>_ _. Inl BackendError)"

text \<open>
  For the concrete runs, an instance of the PGVector parameter: a collection held in
  memory. It is a stand-in, not a model of the library. \<open>add_documents\<close> stores one
  entry per document, with the vector a fixed embedding function gives its text,
  whatever the length of that vector (as PGVector does when it is built without
  \<open>embedding_length\<close>, which is how \<open>VectorStore\<close> builds it); \<open>delete\<close>
  removes the entries whose \<open>id\<close> matches the filter; the search ignores the query
  text and returns the first \<open>k\<close> matching documents in stored order.
\<close>

record index_entry =
  entry_doc :: document
  entry_vector :: "real list"

definition matches_id :: "metadata_dict \<Rightarrow> index_entry \<Rightarrow> bool" where
  "matches_id flt entry =
     (case flt ''id'' of None \<Rightarrow> True | Some i \<Rightarrow> metadata (entry_doc entry) ''id'' = Some i)"

definition pg_memory :: "(string \<Rightarrow> real list) \<Rightarrow> index_entry list pgvector" where
  "pg_memory embed_text =
     \<lparr>pg_init = (\<lambda>args. None),
      pg_add_documents = (\<lambda>args entries docs.
         Inr (map (\<lambda>d. dict_get (metadata d) ''id'' ''generated'') docs,
              entries @ map (\<lambda>d. \<lparr>entry_doc = d, entry_vector = embed_text (page_content d)\<rparr>) docs)),
      pg_delete = (\<lambda>args entries doc_ids flt.
         Inr (filter (\<lambda>entry. \<not> matches_id flt entry) entries)),
      pg_similarity_search = (\<lambda>args entries query k flt.
         Inr (take (nat k) (map entry_doc (filter (matches_id flt) entries))))\<rparr>"

text \<open>A PGVector whose every call raises (the database is unreachable).\<close>

definition pg_down :: "index_entry list pgvector" where
  "pg_down =
     \<lparr>pg_init = (\<lambda>args. Some BackendError),
      pg_add_documents = (\<lambda>args entries docs. Inl BackendError),
      pg_delete = (\<lambda>args entries doc_ids flt. Inl BackendError),
      pg_similarity_search = (\<lambda>args entries query k flt. Inl BackendError)\<rparr>"

text \<open>
  A runtime for the concrete runs: the UUID number \<open>n\<close> is printed as \<open>u\<close>
  followed by \<open>n\<close> digits 1, and only such strings parse.
\<close>

definition rt0 :: runtime where
  "rt0 =
     \<lparr>database_url = Some ''postgresql://caps'',
      str_uuid = (\<lambda>n. CHR ''u'' # replicate n (CHR ''1'')),
      parse_uuid = (\<lambda>s. case s of
                          [] \<Rightarrow> None
                        | c # cs \<Rightarrow> if c = CHR ''u'' \<and> cs = replicate (length cs) (CHR ''1'')
                                    then Some (length cs) else None),
      content_text = inc_title\<rparr>"

definition incident0 :: "nat \<Rightarrow> incident" where
  "incident0 n =
     \<lparr>inc_id = n, inc_title = ''Burglary'', inc_type = ''theft'', inc_date = ''2024-01-01'',
      inc_location = [''district'' \<mapsto> ''north''], inc_severity = ''high'',
      inc_status = ''open'', inc_created_at = ''2024-01-01'', inc_updated_at = ''2024-01-02''\<rparr>"

definition world0 :: "index_entry list world" where
  "world0 =
     \<lparr>db_rows = Map.empty, incident_vector_store = None, pg_connected = False,
      pg_index = [], log_lines = []\<rparr>"

text \<open>The configuration that \<open>get_incident_vector_store\<close> builds.\<close>

definition cfg0 :: vector_store_config where
  "cfg0 = \<lparr>collection_name = ''incidents'', embedding_model = ''models/text-embedding-004'',
      embedding_dimensions = 768, use_jsonb = True, task_type_query = ''retrieval_query'',
      task_type_document = ''retrieval_document'', connection_string = ''postgresql://caps''\<rparr>"

text \<open>
  A world with three incidents in the primary store and in the index, the store
  object created and connected.
\<close>

definition world1 :: "index_entry list world" where
  "world1 =
     \<lparr>db_rows = [1 \<mapsto> incident0 1, 2 \<mapsto> incident0 2, 3 \<mapsto> incident0 3],
      incident_vector_store = Some cfg0, pg_connected = True,
      pg_index = map (\<lambda>n. \<lparr>entry_doc = incident_to_document rt0 (incident0 n),
                                entry_vector = [1, 0, 0]\<rparr>) [1, 2, 3],
      log_lines = []\<rparr>"

section \<open>Properties of the fusion loop\<close>

lemma foldr_max_Max: "foldr max xs (x::real) = Max (insert x (set xs))"
proof (induction xs)
  case Nil then show ?case by simp
next
  case (Cons a xs)
  have "Max (insert x (set (a # xs))) = Max (insert a (insert x (set xs)))"
    by (simp add: insert_commute)
  also have "\<dots> = max a (Max (insert x (set xs)))"
    by (rule Max_insert) auto
  finally show ?case using Cons by simp
qed

lemma max_dist_Max: "ds \<noteq> [] \<Longrightarrow> max_dist ds = Max (set ds)"
proof -
  assume a: "ds \<noteq> []"
  then have "insert (last ds) (set (butlast ds)) = set ds"
    by (metis append_butlast_last_id list.simps(15) rotate1.simps(2) set_rotate1)
  with a show ?thesis by (simp add: max_dist_def foldr_max_Max)
qed

lemma max_dist_zero: "ds \<noteq> [] \<Longrightarrow> \<forall>d\<in>set ds. d = 0 \<Longrightarrow> max_dist ds = 0"
proof -
  assume a: "ds \<noteq> []" and z: "\<forall>d\<in>set ds. d = 0"
  then have "set ds = {0}" by (cases ds) auto
  with a show ?thesis by (simp add: max_dist_Max)
qed

lemma score_loop_zero:
  "is \<noteq> [] \<Longrightarrow> ds \<noteq> [] \<Longrightarrow> score_loop 0 w is ds acc = Inl ZeroDivisionError"
  by (cases "is"; cases ds) auto

text \<open>An exception in the iteration of one view leaves the loop: the whole fusion raises.\<close>

lemma fuse_views_raises:
  "(v, w) \<in> set ws \<Longrightarrow> (\<And>acc. \<exists>e. query_view emb cs n q v w acc = Inl e)
   \<Longrightarrow> \<exists>e. fuse_views emb cs n q ws acc = Inl e"
proof (induction ws arbitrary: acc)
  case Nil then show ?case by simp
next
  case (Cons a ws)
  obtain v' w' where a: "a = (v', w')" by (cases a)
  show ?case
  proof (cases "query_view emb cs n q v' w' acc")
    case (Inl e) then show ?thesis by (simp add: a)
  next
    case (Inr acc')
    with Cons.prems(2)[of acc] have "(v', w') \<noteq> (v, w)" by auto
    with Cons.prems(1) a have "(v, w) \<in> set ws" by auto
    from Cons.IH[OF this Cons.prems(2)] Inr show ?thesis by (simp add: a)
  qed
qed

text \<open>
  C9. The division by the largest distance of a view is guarded only for an empty
  result (\<open>max_dist\<close> is then 1.0 and the view adds nothing). When a view answers
  with a non-empty result whose distances are all zero, \<open>max_dist\<close> is zero, the
  first division raises ZeroDivisionError, and the retrieval raises instead of
  returning: with that view alone the error is ZeroDivisionError, and with that view
  anywhere among the weights the retrieval ends in an exception.
\<close>

theorem multi_context_query_zero_distances:
  assumes "emb q = Inr e" "collections v = Some c" "c e (int (length df)) = Inr r"
  shows "(ids r = [] \<and> distances r = [] \<longrightarrow>
            query_view emb collections (length df) q v w acc = Inr acc) \<and>
         (ids r \<noteq> [] \<and> distances r \<noteq> [] \<and> (\<forall>d\<in>set (distances r). d = 0) \<longrightarrow>
            multi_context_query emb collections df q (Some [(v, w)]) n = Inl ZeroDivisionError \<and>
            ((v, w) \<in> set ws \<longrightarrow>
               (\<exists>err. multi_context_query emb collections df q (Some ws) n = Inl err)))"
proof (intro conjI impI)
  assume "ids r = [] \<and> distances r = []"
  with assms show "query_view emb collections (length df) q v w acc = Inr acc"
    by (simp add: query_view_def)
next
  assume z: "ids r \<noteq> [] \<and> distances r \<noteq> [] \<and> (\<forall>d\<in>set (distances r). d = 0)"
  then have qv: "\<And>acc. query_view emb collections (length df) q v w acc = Inl ZeroDivisionError"
    using assms by (simp add: query_view_def max_dist_zero score_loop_zero)
  then show "multi_context_query emb collections df q (Some [(v, w)]) n = Inl ZeroDivisionError"
    by (simp add: multi_context_query_def)
  assume "(v, w) \<in> set ws"
  from fuse_views_raises[OF this, of emb collections "length df" q "[]"] qv
  obtain err where "fuse_views emb collections (length df) q ws [] = Inl err" by blast
  then show "\<exists>err. multi_context_query emb collections df q (Some ws) n = Inl err"
    by (simp add: multi_context_query_def)
qed

text \<open>
  A frame of two rows; the view \<open>geo_context\<close> ranks both at distance zero (two
  records whose text is the query's).
\<close>

theorem multi_context_query_zero_distances_witness:
  "multi_context_query emb_ok [''geo_context'' \<mapsto> fixed_collection [0, 1] [0, 0]]
     [''row0'', ''row1''] ''q'' (Some [(''geo_context'', 1)]) 5 = Inl ZeroDivisionError
   \<and> (\<exists>err. multi_context_query emb_ok [''geo_context'' \<mapsto> fixed_collection [0, 1] [0, 0]]
     [''row0'', ''row1''] ''q'' (Some [(''geo_context'', 1)]) 5 = Inl err)"
proof -
  let ?cs = "[''geo_context'' \<mapsto> fixed_collection [0, 1] [0, 0]]"
  have h1: "emb_ok ''q'' = Inr 0" by (simp add: emb_ok_def)
  have h2: "?cs ''geo_context'' = Some (fixed_collection [0, 1] [0, 0])" by simp
  have h3: "fixed_collection [0, 1] [0, 0] 0 (int (length [''row0'', ''row1'']))
              = Inr \<lparr>ids = [0, 1], distances = [0, 0]\<rparr>"
    by (simp add: fixed_collection_def)
  from multi_context_query_zero_distances[where emb = emb_ok and q = "''q''" and e = 0
      and collections = ?cs and v = "''geo_context''"
      and c = "fixed_collection [0, 1] [0, 0]" and df = "[''row0'', ''row1'']"
      and r = "\<lparr>ids = [0, 1], distances = [0, 0]\<rparr>"
      and w = 1 and acc = "[]" and n = 5 and ws = "[(''geo_context'', 1)]", OF h1 h2 h3]
  show ?thesis by simp
qed

section \<open>Runs of the retrieval on concrete indexes\<close>

lemmas run_defs = multi_context_query_def query_view_def emb_ok_def fixed_collection_def
  down_collection_def max_dist_def top_docs_def py_prefix_def iloc_def

lemma py_prefix_Nil: "py_prefix [] n = []"
  by (simp add: py_prefix_def)

subsection \<open>Failure of one view\<close>

text \<open>
  C3, as stated, fails. Two views are configured; \<open>geo_context\<close> answers and the
  collection of \<open>temporal_context\<close> raises. The claim asks for a ranked result from
  the healthy view; the retrieval raises the error of the failing view.
\<close>

theorem partial_outage_counterexample:
  "multi_context_query emb_ok
     [''geo_context'' \<mapsto> fixed_collection [0, 1] [1, 2],
      ''temporal_context'' \<mapsto> down_collection]
     [''row0'', ''row1''] ''q''
     (Some [(''geo_context'', 1), (''temporal_context'', 1)]) 5 = Inl BackendError"
  by (simp add: run_defs)

lemma fuse_views_append:
  "fuse_views emb cs n q (pre @ rest) acc =
     (case fuse_views emb cs n q pre acc of
        Inl e \<Rightarrow> Inl e
      | Inr acc' \<Rightarrow> fuse_views emb cs n q rest acc')"
proof (induction pre arbitrary: acc)
  case Nil then show ?case by simp
next
  case (Cons a pre)
  obtain v w where a: "a = (v, w)" by (cases a)
  show ?case by (cases "query_view emb cs n q v w acc") (simp_all add: a Cons.IH)
qed

lemma query_view_failure:
  "view_failure emb cs n q v = Some x \<Longrightarrow> query_view emb cs n q v w acc = Inl x"
  by (auto simp: view_failure_def query_view_def split: sum.splits option.splits)

text \<open>
  C3, amended. The loop over the views has no handler: when the embedding call, the
  lookup of the collection or the query of the collection raises for any one view
  among the weights, the whole retrieval raises and no partial result is returned.
  The exception raised is that of the first view, in the order of the weights, whose
  iteration raises (whatever it raises, a ZeroDivisionError of the scoring included):
  it is the failing view's own exception when every view before it was processed
  without an exception. An exception is the only error signal, and it
  is distinct from every returned result, the empty one included.
\<close>

theorem multi_context_query_view_failure_propagates:
  assumes "view_failure emb cs (length df) q v = Some x"
  shows "((v, w) \<in> set ws \<longrightarrow> (\<exists>err. multi_context_query emb cs df q (Some ws) n = Inl err)) \<and>
         (\<forall>pre post acc. ws = pre @ (v, w) # post \<and>
              fuse_views emb cs (length df) q pre [] = Inr acc \<longrightarrow>
            multi_context_query emb cs df q (Some ws) n = Inl x) \<and>
         (\<forall>pre v' w' post acc e. ws = pre @ (v', w') # post \<and>
              fuse_views emb cs (length df) q pre [] = Inr acc \<and>
              query_view emb cs (length df) q v' w' acc = Inl e \<longrightarrow>
            multi_context_query emb cs df q (Some ws) n = Inl e)"
proof (intro conjI impI allI)
  assume m: "(v, w) \<in> set ws"
  from assms have "\<And>acc. \<exists>e. query_view emb cs (length df) q v w acc = Inl e"
    by (auto dest: query_view_failure)
  from fuse_views_raises[OF m this, of "[]"]
  show "\<exists>err. multi_context_query emb cs df q (Some ws) n = Inl err"
    by (auto simp: multi_context_query_def)
next
  fix pre post acc
  assume a: "ws = pre @ (v, w) # post \<and> fuse_views emb cs (length df) q pre [] = Inr acc"
  from assms have "query_view emb cs (length df) q v w acc = Inl x"
    by (rule query_view_failure)
  with a have "fuse_views emb cs (length df) q ws [] = Inl x"
    by (simp add: fuse_views_append)
  then show "multi_context_query emb cs df q (Some ws) n = Inl x"
    by (simp add: multi_context_query_def)
next
  fix pre v' w' post acc e
  assume a: "ws = pre @ (v', w') # post \<and>
              fuse_views emb cs (length df) q pre [] = Inr acc \<and>
              query_view emb cs (length df) q v' w' acc = Inl e"
  then have "fuse_views emb cs (length df) q ws [] = Inl e"
    by (simp add: fuse_views_append)
  then show "multi_context_query emb cs df q (Some ws) n = Inl e"
    by (simp add: multi_context_query_def)
qed

theorem multi_context_query_view_failure_propagates_witness:
  "view_failure emb_ok
      [''full_context'' \<mapsto> fixed_collection [1, 0] [2, 4],
       ''socioeconomic_context'' \<mapsto> down_collection]
      (length [''row0'', ''row1'']) ''q'' ''socioeconomic_context'' = Some BackendError
   \<and> fuse_views emb_ok
      [''full_context'' \<mapsto> fixed_collection [1, 0] [2, 4],
       ''socioeconomic_context'' \<mapsto> down_collection]
      (length [''row0'', ''row1'']) ''q'' [(''full_context'', 1 / 2)] [] = Inr [(1, 1 / 4), (0, 0)]
   \<and> multi_context_query emb_ok
      [''full_context'' \<mapsto> fixed_collection [1, 0] [2, 4],
       ''socioeconomic_context'' \<mapsto> down_collection]
      [''row0'', ''row1''] ''q''
      (Some [(''full_context'', 1 / 2), (''socioeconomic_context'', 1 / 2)]) 3 = Inl BackendError
   \<and> view_failure emb_ok
      [''geo_context'' \<mapsto> fixed_collection [0, 1] [0, 0],
       ''temporal_context'' \<mapsto> down_collection]
      (length [''row0'', ''row1'']) ''q'' ''temporal_context'' = Some BackendError
   \<and> query_view emb_ok
      [''geo_context'' \<mapsto> fixed_collection [0, 1] [0, 0],
       ''temporal_context'' \<mapsto> down_collection]
      (length [''row0'', ''row1'']) ''q'' ''geo_context'' 1 [] = Inl ZeroDivisionError
   \<and> multi_context_query emb_ok
      [''geo_context'' \<mapsto> fixed_collection [0, 1] [0, 0],
       ''temporal_context'' \<mapsto> down_collection]
      [''row0'', ''row1''] ''q''
      (Some [(''geo_context'', 1), (''temporal_context'', 1)]) 3 = Inl ZeroDivisionError"
proof -
  let ?cs = "[''full_context'' \<mapsto> fixed_collection [1, 0] [2, 4],
       ''socioeconomic_context'' \<mapsto> down_collection]"
  let ?df = "[''row0'', ''row1'']"
  let ?ws = "[(''full_context'', 1 / 2 :: real), (''socioeconomic_context'', 1 / 2)]"
  have h1: "view_failure emb_ok ?cs (length ?df) ''q'' ''socioeconomic_context'' = Some BackendError"
    by (simp add: view_failure_def emb_ok_def down_collection_def)
  have h2: "fuse_views emb_ok ?cs (length ?df) ''q'' [(''full_context'', 1 / 2)] []
              = Inr [(1, 1 / 4), (0, 0)]"
    by (simp add: run_defs)
  have h3: "?ws = [(''full_context'', 1 / 2)] @ (''socioeconomic_context'', 1 / 2) # []" by simp
  from multi_context_query_view_failure_propagates[OF h1, of "1 / 2" ?ws 3,
      THEN conjunct2, THEN conjunct1, rule_format,
      of "[(''full_context'', 1 / 2)]" "[]" "[(1, 1 / 4), (0, 0)]"]
    h2 h3
  have a: "multi_context_query emb_ok ?cs ?df ''q'' (Some ?ws) 3 = Inl BackendError" by blast
  let ?cs2 = "[''geo_context'' \<mapsto> fixed_collection [0, 1] [0, 0],
       ''temporal_context'' \<mapsto> down_collection]"
  let ?ws2 = "[(''geo_context'', 1 :: real), (''temporal_context'', 1)]"
  have g1: "view_failure emb_ok ?cs2 (length ?df) ''q'' ''temporal_context'' = Some BackendError"
    by (simp add: view_failure_def emb_ok_def down_collection_def)
  have g2: "query_view emb_ok ?cs2 (length ?df) ''q'' ''geo_context'' 1 [] = Inl ZeroDivisionError"
    by (simp add: run_defs)
  have g3: "?ws2 = [] @ (''geo_context'', 1) # [(''temporal_context'', 1)]
      \<and> fuse_views emb_ok ?cs2 (length ?df) ''q'' [] [] = Inr []
      \<and> query_view emb_ok ?cs2 (length ?df) ''q'' ''geo_context'' 1 [] = Inl ZeroDivisionError"
    using g2 by simp
  from multi_context_query_view_failure_propagates[OF g1, of 1 ?ws2 3,
      THEN conjunct2, THEN conjunct2, rule_format, OF g3]
  have b: "multi_context_query emb_ok ?cs2 ?df ''q'' (Some ?ws2) 3 = Inl ZeroDivisionError" .
  from h1 h2 a g1 g2 b show ?thesis by blast
qed

subsection \<open>Empty and all-zero weights\<close>

text \<open>
  C4, as stated, fails for weights that are all zero. A view of weight zero is queried
  like any other, and each of its candidates enters \<open>doc_scores\<close> with score zero:
  the result is not empty.
\<close>

theorem zero_weights_counterexample:
  "multi_context_query emb_ok [''geo_context'' \<mapsto> fixed_collection [0] [1]]
     [''row0''] ''q'' (Some [(''geo_context'', 0)]) 5 = Inr [(0, ''row0'')]"
  by (simp add: run_defs)

text \<open>
  C4, amended. For the empty weight vector the retrieval returns the empty sequence
  and does not raise (no view is embedded or queried); a non-empty result needs a
  non-empty weight vector.
\<close>

theorem multi_context_query_empty_weights:
  "multi_context_query emb cs df q (Some []) n = Inr [] \<and>
   (\<forall>ws rows. multi_context_query emb cs df q (Some ws) n = Inr rows \<and> rows \<noteq> []
      \<longrightarrow> ws \<noteq> [])"
proof -
  have e: "multi_context_query emb cs df q (Some []) n = Inr []"
    by (simp add: multi_context_query_def top_docs_def py_prefix_Nil iloc_def)
  then show ?thesis by auto
qed

theorem multi_context_query_empty_weights_witness:
  "multi_context_query emb_ok [''full_context'' \<mapsto> fixed_collection [1, 0] [2, 4]]
       [''row0'', ''row1''] ''q'' (Some []) 1 = Inr []
   \<and> multi_context_query emb_ok [''full_context'' \<mapsto> fixed_collection [1, 0] [2, 4]]
       [''row0'', ''row1''] ''q'' (Some [(''full_context'', 1)]) 1 = Inr [(1, ''row1'')]
   \<and> [(1, ''row1'')] \<noteq> ([] :: (nat \<times> string) list)
   \<and> [(''full_context'', 1 :: real)] \<noteq> []"
proof -
  have h: "multi_context_query emb_ok [''full_context'' \<mapsto> fixed_collection [1, 0] [2, 4]]
       [''row0'', ''row1''] ''q'' (Some [(''full_context'', 1)]) 1 = Inr [(1, ''row1'')]"
    by (simp add: run_defs)
  from multi_context_query_empty_weights[of emb_ok
      "[''full_context'' \<mapsto> fixed_collection [1, 0] [2, 4]]" "[''row0'', ''row1'']" "''q''" 1] h
  show ?thesis by simp
qed

section \<open>The fused score\<close>

lemma get_set_score: "get_score (set_score m k v) k' = (if k' = k then v else get_score m k')"
  by (induction m) auto

lemma keys_set_score: "set (map fst (set_score m k v)) = insert k (set (map fst m))"
proof (induction m)
  case Nil then show ?case by simp
next
  case (Cons a m)
  obtain k' v' where a: "a = (k', v')" by (cases a)
  show ?case
  proof (cases "k' = k")
    case True then show ?thesis by (simp add: a)
  next
    case False
    have "set (map fst (set_score (a # m) k v)) = insert k' (set (map fst (set_score m k v)))"
      using False by (simp add: a)
    also have "\<dots> = insert k' (insert k (set (map fst m)))" by (simp only: Cons.IH)
    finally show ?thesis by (simp add: a insert_commute)
  qed
qed

lemma distinct_set_score:
  "distinct (map fst m) \<Longrightarrow> distinct (map fst (set_score m k v))"
proof (induction m)
  case Nil then show ?case by simp
next
  case (Cons a m)
  obtain k' v' where a: "a = (k', v')" by (cases a)
  show ?case
  proof (cases "k' = k")
    case True with Cons.prems a show ?thesis by simp
  next
    case False
    have "k' \<notin> set (map fst (set_score m k v))"
      using Cons.prems a False unfolding keys_set_score by simp
    with Cons a False show ?thesis by simp
  qed
qed

lemma entry_get_score: "distinct (map fst m) \<Longrightarrow> (i, s) \<in> set m \<Longrightarrow> get_score m i = s"
  by (induction m) (auto simp: rev_image_eqI)

lemma contribution_absent: "k \<notin> set is \<Longrightarrow> contribution md w is ds k = 0"
  by (induction md w "is" ds k rule: contribution.induct) auto

lemma score_loop_get:
  "score_loop md w is ds acc = Inr acc' \<Longrightarrow> distinct is
   \<Longrightarrow> get_score acc' k = get_score acc k + contribution md w is ds k"
proof (induction md w "is" ds acc rule: score_loop.induct)
  case (1 md weight ds acc) then show ?case by simp
next
  case (2 md weight doc_id rest acc) then show ?case by simp
next
  case (3 md weight doc_id rest d ds acc)
  from "3.prems" have nz: "md \<noteq> 0" by (auto split: if_splits)
  let ?acc1 = "set_score acc doc_id (get_score acc doc_id + (1 - d / md) * weight)"
  from "3.prems" nz have run: "score_loop md weight rest ds ?acc1 = Inr acc'" by simp
  from "3.prems" have d: "distinct rest" "doc_id \<notin> set rest" by auto
  from "3.IH"[OF nz run d(1)]
  have ih: "get_score acc' k = get_score ?acc1 k + contribution md weight rest ds k" .
  show ?case
  proof (cases "doc_id = k")
    case True
    with d(2) have "contribution md weight rest ds k = 0" by (simp add: contribution_absent)
    with ih True show ?thesis by (simp add: get_set_score)
  next
    case False
    with ih show ?thesis by (simp add: get_set_score)
  qed
qed

lemma score_loop_distinct_keys:
  "score_loop md w is ds acc = Inr acc' \<Longrightarrow> distinct (map fst acc) \<Longrightarrow> distinct (map fst acc')"
  by (induction md w "is" ds acc rule: score_loop.induct)
     (auto split: if_splits intro: distinct_set_score)

lemma query_view_Inr:
  "query_view emb cs n q v w acc = Inr acc' \<Longrightarrow>
   \<exists>r. view_result emb cs n q v = Some r \<and>
       score_loop (max_dist (distances r)) w (ids r) (distances r) acc = Inr acc'"
  by (auto simp: query_view_def view_result_def split: sum.splits option.splits)

lemma fuse_views_get:
  "fuse_views emb cs n q ws acc = Inr acc' \<Longrightarrow>
   (\<forall>(v, w) \<in> set ws. \<forall>r. view_result emb cs n q v = Some r \<longrightarrow> distinct (ids r)) \<Longrightarrow>
   get_score acc' k = get_score acc k + (\<Sum>(v, w) \<leftarrow> ws. view_score emb cs n q v w k)"
proof (induction ws arbitrary: acc)
  case Nil then show ?case by simp
next
  case (Cons a ws)
  obtain v w where a: "a = (v, w)" by (cases a)
  from Cons.prems(1) a obtain acc1 where
    q1: "query_view emb cs n q v w acc = Inr acc1" and
    f1: "fuse_views emb cs n q ws acc1 = Inr acc'"
    by (auto split: sum.splits)
  from query_view_Inr[OF q1] obtain r where
    r: "view_result emb cs n q v = Some r" and
    sl: "score_loop (max_dist (distances r)) w (ids r) (distances r) acc = Inr acc1" by blast
  from Cons.prems(2) a r have "distinct (ids r)" by auto
  from score_loop_get[OF sl this]
  have g1: "get_score acc1 k = get_score acc k + view_score emb cs n q v w k"
    by (simp add: view_score_def r)
  from Cons.prems(2) have
    "\<forall>(v, w) \<in> set ws. \<forall>r. view_result emb cs n q v = Some r \<longrightarrow> distinct (ids r)" by auto
  from Cons.IH[OF f1 this] g1 a show ?case by simp
qed

lemma fuse_views_distinct_keys:
  "fuse_views emb cs n q ws acc = Inr acc' \<Longrightarrow> distinct (map fst acc) \<Longrightarrow> distinct (map fst acc')"
proof (induction ws arbitrary: acc)
  case Nil then show ?case by simp
next
  case (Cons a ws)
  obtain v w where a: "a = (v, w)" by (cases a)
  from Cons.prems(1) a obtain acc1 where
    q1: "query_view emb cs n q v w acc = Inr acc1" and
    f1: "fuse_views emb cs n q ws acc1 = Inr acc'"
    by (auto split: sum.splits)
  from query_view_Inr[OF q1] score_loop_distinct_keys Cons.prems(2)
  have "distinct (map fst acc1)" by blast
  from Cons.IH[OF f1 this] show ?case .
qed

lemma contribution_bounds:
  "0 \<le> w \<Longrightarrow> \<forall>d \<in> set ds. 0 \<le> d \<and> d \<le> md \<Longrightarrow>
   0 \<le> contribution md w is ds k \<and> contribution md w is ds k \<le> w"
proof (induction md w "is" ds k rule: contribution.induct)
  case (3 md weight doc_id rest d ds k)
  from "3.prems" have d: "0 \<le> d" "d \<le> md" by auto
  then have "0 \<le> d / md \<and> d / md \<le> 1"
    by (cases "md = 0") (auto simp: divide_le_eq_1)
  then have "0 \<le> (1 - d / md) * weight \<and> (1 - d / md) * weight \<le> weight"
    using "3.prems"(1) by (auto simp: mult_left_le_one_le mult_le_cancel_right1)
  with 3 show ?case by auto
qed auto

lemma max_dist_ge: "d \<in> set ds \<Longrightarrow> d \<le> max_dist ds"
proof -
  assume d: "d \<in> set ds"
  then have "ds \<noteq> []" by auto
  with d show ?thesis by (simp add: max_dist_Max)
qed

lemma view_score_bounds:
  assumes "0 \<le> w"
    and "\<forall>r. view_result emb cs n q v = Some r \<longrightarrow> (\<forall>d \<in> set (distances r). 0 \<le> d)"
  shows "0 \<le> view_score emb cs n q v w k \<and> view_score emb cs n q v w k \<le> w"
proof (cases "view_result emb cs n q v")
  case None with assms(1) show ?thesis by (simp add: view_score_def)
next
  case (Some r)
  with assms(2) have "\<forall>d \<in> set (distances r). 0 \<le> d \<and> d \<le> max_dist (distances r)"
    by (auto simp: max_dist_ge)
  from contribution_bounds[OF assms(1) this] Some show ?thesis by (simp add: view_score_def)
qed

lemma sum_view_score_bounds:
  "(\<forall>(v, w) \<in> set ws. 0 \<le> w \<and>
      (\<forall>r. view_result emb cs n q v = Some r \<longrightarrow> (\<forall>d \<in> set (distances r). 0 \<le> d))) \<Longrightarrow>
   0 \<le> (\<Sum>(v, w) \<leftarrow> ws. view_score emb cs n q v w k) \<and>
   (\<Sum>(v, w) \<leftarrow> ws. view_score emb cs n q v w k) \<le> sum_list (map snd ws)"
proof (induction ws)
  case Nil then show ?case by simp
next
  case (Cons a ws)
  obtain v w where a: "a = (v, w)" by (cases a)
  from Cons.prems a have "0 \<le> w"
    "\<forall>r. view_result emb cs n q v = Some r \<longrightarrow> (\<forall>d \<in> set (distances r). 0 \<le> d)" by auto
  from view_score_bounds[OF this, of k] Cons a show ?case by auto
qed

text \<open>
  C1, as stated, fails. One view of weight 2 ranks record 0 at distance 0 and record 1
  at distance 1. The claim divides the weight by the sum of the active weights, which
  gives record 0 the fused score 1 (second run, weight 2 / 2); the loop multiplies by
  the raw weight and gives it the fused score 2, outside [0,1].
\<close>

theorem raw_weight_counterexample:
  "fuse_views emb_ok [''geo_context'' \<mapsto> fixed_collection [0, 1] [0, 1]] 2 ''q''
     [(''geo_context'', 2)] [] = Inr [(0, 2), (1, 0)]
   \<and> fuse_views emb_ok [''geo_context'' \<mapsto> fixed_collection [0, 1] [0, 1]] 2 ''q''
     [(''geo_context'', 2 / 2)] [] = Inr [(0, 1), (1, 0)]
   \<and> \<not> (2 :: real) \<le> 1"
  by (simp add: run_defs)

lemma foldl_add_sum_list:
  "foldl (\<lambda>s x. s + g x) a xs = (a :: real) + sum_list (map g xs)"
  by (induction xs arbitrary: a) auto

lemma foldl_view_scores:
  "foldl (\<lambda>s (v, w). s + view_score emb cs n q v w k) 0 ws
     = (\<Sum>(v, w) \<leftarrow> ws. view_score emb cs n q v w k)"
proof -
  have "foldl (\<lambda>s (v, w). s + view_score emb cs n q v w k) a ws
          = a + (\<Sum>(v, w) \<leftarrow> ws. view_score emb cs n q v w k)" for a
    by (induction ws arbitrary: a) auto
  then show ?thesis by simp
qed

lemma foldl_weights: "foldl (+) 0 (map snd ws) = sum_list (map snd (ws :: (string \<times> real) list))"
  using foldl_add_sum_list[of "\<lambda>x. x" 0 "map snd ws"] by simp

text \<open>
  C1, amended. When the retrieval does not raise and every view lists a record at most
  once, the fused score of each record is the sum, taken over the views in the order
  of the weights, of \<open>(1 - distance / max_dist) * weight\<close>, with the weight of the
  view as given (it is not divided by the sum of the weights) and with nothing added
  by a view that does not list the record; a view that returns no candidates adds
  nothing and does not raise. With non-negative weights and distances every fused
  score then lies between 0 and the sum of the weights, hence in [0,1] when the
  weights sum to at most 1.
\<close>

theorem fused_score_raw_weights:
  assumes run: "fuse_views emb cs n q ws [] = Inr scores"
    and dist: "\<forall>(v, w) \<in> set ws. \<forall>r. view_result emb cs n q v = Some r \<longrightarrow> distinct (ids r)"
  shows "(\<forall>k. get_score scores k
              = foldl (\<lambda>s (v, w). s + view_score emb cs n q v w k) 0 ws) \<and>
         (\<forall>v w r acc. view_result emb cs n q v = Some r \<and> ids r = [] \<longrightarrow>
            query_view emb cs n q v w acc = Inr acc \<and> (\<forall>k. view_score emb cs n q v w k = 0)) \<and>
         ((\<forall>(v, w) \<in> set ws. 0 \<le> w \<and>
             (\<forall>r. view_result emb cs n q v = Some r \<longrightarrow> (\<forall>d \<in> set (distances r). 0 \<le> d))) \<longrightarrow>
          (\<forall>(k, s) \<in> set scores. 0 \<le> s \<and> s \<le> foldl (+) 0 (map snd ws)))"
proof (intro conjI allI impI)
  fix k
  from fuse_views_get[OF run dist, of k]
  show "get_score scores k = foldl (\<lambda>s (v, w). s + view_score emb cs n q v w k) 0 ws"
    by (simp add: foldl_view_scores)
next
  fix v w r acc
  assume "view_result emb cs n q v = Some r \<and> ids r = []"
  then show "query_view emb cs n q v w acc = Inr acc"
    by (auto simp: view_result_def query_view_def split: sum.splits option.splits)
next
  fix v w r acc k
  assume "view_result emb cs n q v = Some r \<and> ids r = []"
  then show "view_score emb cs n q v w k = 0" by (simp add: view_score_def)
next
  assume nn: "\<forall>(v, w) \<in> set ws. 0 \<le> w \<and>
             (\<forall>r. view_result emb cs n q v = Some r \<longrightarrow> (\<forall>d \<in> set (distances r). 0 \<le> d))"
  have dk: "distinct (map fst scores)"
    using fuse_views_distinct_keys[OF run] by simp
  show "\<forall>(k, s) \<in> set scores. 0 \<le> s \<and> s \<le> foldl (+) 0 (map snd ws)"
  proof (clarify)
    fix k s
    assume "(k, s) \<in> set scores"
    from entry_get_score[OF dk this] fuse_views_get[OF run dist, of k]
    have "s = (\<Sum>(v, w) \<leftarrow> ws. view_score emb cs n q v w k)" by simp
    with sum_view_score_bounds[OF nn, of k]
    show "0 \<le> s \<and> s \<le> foldl (+) 0 (map snd ws)" by (simp add: foldl_weights)
  qed
qed

text \<open>
  The temporal view (weight 1/2) ranks records 0, 1, 2 at distances 1, 2, 4 and the
  geographic view (weight 1/4) ranks records 1, 2 at distances 1, 2. Record 1 gets
  1/4 from the first view and 1/8 from the second.
\<close>

theorem fused_score_raw_weights_witness:
  "fuse_views emb_ok
      [''temporal_context'' \<mapsto> fixed_collection [0, 1, 2] [1, 2, 4],
       ''geo_context'' \<mapsto> fixed_collection [1, 2] [1, 2]] 3 ''q''
      [(''temporal_context'', 1 / 2), (''geo_context'', 1 / 4)] []
     = Inr [(0, 3 / 8), (1, 3 / 8), (2, 0)]
   \<and> get_score [(0, 3 / 8), (1, 3 / 8), (2, 0)] 1
       = foldl (\<lambda>s (v, w). s + view_score emb_ok
              [''temporal_context'' \<mapsto> fixed_collection [0, 1, 2] [1, 2, 4],
               ''geo_context'' \<mapsto> fixed_collection [1, 2] [1, 2]] 3 ''q'' v w 1) 0
           [(''temporal_context'', 1 / 2), (''geo_context'', 1 / 4)]
   \<and> view_score emb_ok
        [''temporal_context'' \<mapsto> fixed_collection [0, 1, 2] [1, 2, 4],
         ''geo_context'' \<mapsto> fixed_collection [1, 2] [1, 2]] 3 ''q'' ''temporal_context'' (1 / 2) 1
       = 1 / 4
   \<and> view_score emb_ok
        [''temporal_context'' \<mapsto> fixed_collection [0, 1, 2] [1, 2, 4],
         ''geo_context'' \<mapsto> fixed_collection [1, 2] [1, 2]] 3 ''q'' ''geo_context'' (1 / 4) 1
       = 1 / 8
   \<and> (0 :: real) \<le> 3 / 8
   \<and> (3 / 8 :: real) \<le> foldl (+) 0
         (map snd [(''temporal_context'', 1 / 2 :: real), (''geo_context'', 1 / 4)])"
proof -
  let ?cs = "[''temporal_context'' \<mapsto> fixed_collection [0, 1, 2] [1, 2, 4],
       ''geo_context'' \<mapsto> fixed_collection [1, 2] [1, 2]]"
  let ?ws = "[(''temporal_context'', 1 / 2 :: real), (''geo_context'', 1 / 4)]"
  let ?scores = "[(0 :: nat, 3 / 8 :: real), (1, 3 / 8), (2, 0)]"
  have h1: "fuse_views emb_ok ?cs 3 ''q'' ?ws [] = Inr ?scores"
    by (simp add: run_defs)
  have h2: "\<forall>(v, w) \<in> set ?ws. \<forall>r. view_result emb_ok ?cs 3 ''q'' v = Some r \<longrightarrow> distinct (ids r)"
    by (auto simp: view_result_def emb_ok_def fixed_collection_def)
  have h3: "\<forall>(v, w) \<in> set ?ws. 0 \<le> w \<and>
             (\<forall>r. view_result emb_ok ?cs 3 ''q'' v = Some r \<longrightarrow> (\<forall>d \<in> set (distances r). 0 \<le> d))"
    by (auto simp: view_result_def emb_ok_def fixed_collection_def)
  note t = fused_score_raw_weights[OF h1 h2]
  from t have f: "get_score ?scores 1
       = foldl (\<lambda>s (v, w). s + view_score emb_ok ?cs 3 ''q'' v w 1) 0 ?ws" by blast
  from t h3 have "\<forall>(k, s) \<in> set ?scores. 0 \<le> s \<and> s \<le> foldl (+) 0 (map snd ?ws)" by blast
  then have b: "(0 :: real) \<le> 3 / 8 \<and> (3 / 8 :: real) \<le> foldl (+) 0 (map snd ?ws)" by simp
  have v1: "view_score emb_ok ?cs 3 ''q'' ''temporal_context'' (1 / 2) 1 = 1 / 4"
    by (simp add: view_score_def view_result_def emb_ok_def fixed_collection_def max_dist_def)
  have v2: "view_score emb_ok ?cs 3 ''q'' ''geo_context'' (1 / 4) 1 = 1 / 8"
    by (simp add: view_score_def view_result_def emb_ok_def fixed_collection_def max_dist_def)
  from h1 f v1 v2 b show ?thesis by blast
qed

section \<open>Order of the result\<close>

text \<open>
  C5, as stated, fails. Records 0 and 1 are candidates of both views and reach the same
  fused score 1/2. The claim breaks the tie by the number of contributing views (two
  for each) and then by ascending record id, so record 0 comes first; the retrieval
  returns record 1 first, the one \<open>doc_scores\<close> met first.
\<close>

theorem tie_break_counterexample:
  "multi_context_query emb_ok
     [''geo_context'' \<mapsto> fixed_collection [1, 0] [1, 2],
      ''temporal_context'' \<mapsto> fixed_collection [0, 1] [1, 2]]
     [''row0'', ''row1''] ''q''
     (Some [(''geo_context'', 1), (''temporal_context'', 1)]) 5
       = Inr [(1, ''row1''), (0, ''row0'')]"
  by (simp add: run_defs)

lemma keys_set_score_order: "map fst (set_score m k v) = add_new (map fst m) k"
  by (induction m) (force simp: add_new_def)+

lemma score_loop_keys:
  "score_loop md w is ds acc = Inr acc' \<Longrightarrow> map fst acc' = foldl add_new (map fst acc) is"
  by (induction md w "is" ds acc rule: score_loop.induct)
     (auto simp: keys_set_score_order split: if_splits)

lemma fuse_views_keys:
  "fuse_views emb cs n q ws acc = Inr acc' \<Longrightarrow>
   map fst acc' = foldl add_new (map fst acc)
     (concat (map (\<lambda>(v, w). case view_result emb cs n q v of None \<Rightarrow> [] | Some r \<Rightarrow> ids r) ws))"
proof (induction ws arbitrary: acc)
  case Nil then show ?case by simp
next
  case (Cons a ws)
  obtain v w where a: "a = (v, w)" by (cases a)
  from Cons.prems a obtain acc1 where
    q1: "query_view emb cs n q v w acc = Inr acc1" and
    f1: "fuse_views emb cs n q ws acc1 = Inr acc'"
    by (auto split: sum.splits)
  from query_view_Inr[OF q1] obtain r where
    r: "view_result emb cs n q v = Some r" and
    sl: "score_loop (max_dist (distances r)) w (ids r) (distances r) acc = Inr acc1" by blast
  from score_loop_keys[OF sl] have "map fst acc1 = foldl add_new (map fst acc) (ids r)" .
  with Cons.IH[OF f1] r a show ?case by simp
qed

lemma ties_by_key:
  assumes "distinct (map fst m)"
  shows "map fst (filter (\<lambda>x. snd x = s) m) = filter (\<lambda>i. get_score m i = s) (map fst m)"
proof -
  have "filter (\<lambda>x. snd x = s) m = filter (\<lambda>x. get_score m (fst x) = s) m"
  proof (rule filter_cong[OF refl])
    fix x assume "x \<in> set m"
    then have "(fst x, snd x) \<in> set m" by simp
    from entry_get_score[OF assms this] show "(snd x = s) = (get_score m (fst x) = s)" by simp
  qed
  then show ?thesis by (simp add: filter_map comp_def)
qed

text \<open>
  C5, amended. \<open>doc_scores\<close> holds the records in the order in which the loops
  first met them: the order of the weights, then of each view's result. The result is
  the \<open>[:n_results]\<close> prefix of a ranking that holds every entry of
  \<open>doc_scores\<close> once, is sorted by fused score descending, and keeps records of
  equal fused score in that first-met order. The ranking is a function of the inputs
  alone, so two identical queries against an unmodified index return the same ordered
  result.
\<close>

theorem multi_context_query_order:
  assumes "fuse_views emb cs (length df) q ws [] = Inr scores"
    and "multi_context_query emb cs df q (Some ws) n = Inr rows"
  shows "map fst scores = first_met_order emb cs (length df) q ws \<and>
         (\<exists>ranked. map fst rows = map fst (py_prefix ranked n) \<and>
           mset ranked = mset scores \<and>
           sorted_wrt (\<lambda>a b. snd a \<ge> snd b) ranked \<and>
           (\<forall>s. filter (\<lambda>x. snd x = s) ranked = filter (\<lambda>x. snd x = s) scores) \<and>
           (\<forall>s. map fst (filter (\<lambda>x. snd x = s) ranked)
                = filter (\<lambda>i. get_score scores i = s)
                    (first_met_order emb cs (length df) q ws)))"
proof -
  let ?r = "sort_key (\<lambda>x. - snd x) scores"
  have keys: "map fst scores = first_met_order emb cs (length df) q ws"
    using fuse_views_keys[OF assms(1)] by (simp add: first_met_order_def)
  have dk: "distinct (map fst scores)"
    using fuse_views_distinct_keys[OF assms(1)] by simp
  have "sorted (map (\<lambda>x. - snd x) ?r)" by (rule sorted_sort_key)
  then have s: "sorted_wrt (\<lambda>a b. snd a \<ge> snd b) ?r"
    by (simp add: sorted_wrt_map)
  have st: "\<forall>s. filter (\<lambda>x. snd x = s) ?r = filter (\<lambda>x. snd x = s) scores"
  proof
    fix s
    have "filter (\<lambda>x. - snd x = - s) ?r = filter (\<lambda>x. - snd x = - s) scores"
      by (rule sort_key_stable)
    then show "filter (\<lambda>x. snd x = s) ?r = filter (\<lambda>x. snd x = s) scores" by simp
  qed
  have fm: "\<forall>s. map fst (filter (\<lambda>x. snd x = s) ?r)
                = filter (\<lambda>i. get_score scores i = s) (first_met_order emb cs (length df) q ws)"
    using st ties_by_key[OF dk] keys by simp
  from assms have "map fst rows = map fst (py_prefix ?r n)"
    by (auto simp: multi_context_query_def top_docs_def iloc_def comp_def split: if_splits)
  with s st fm have "\<exists>ranked. map fst rows = map fst (py_prefix ranked n) \<and>
           mset ranked = mset scores \<and>
           sorted_wrt (\<lambda>a b. snd a \<ge> snd b) ranked \<and>
           (\<forall>s. filter (\<lambda>x. snd x = s) ranked = filter (\<lambda>x. snd x = s) scores) \<and>
           (\<forall>s. map fst (filter (\<lambda>x. snd x = s) ranked)
                = filter (\<lambda>i. get_score scores i = s)
                    (first_met_order emb cs (length df) q ws))"
    by (intro exI[of _ ?r]) simp
  with keys show ?thesis by simp
qed

text \<open>
  Two views rank three records in opposite orders; every record reaches the fused
  score 1, and the two returned are the two the first view listed first.
\<close>

theorem multi_context_query_order_witness:
  "fuse_views emb_ok
       [''geo_context'' \<mapsto> fixed_collection [2, 1, 0] [0, 2, 4],
        ''temporal_context'' \<mapsto> fixed_collection [0, 1, 2] [0, 2, 4]]
       (length [''row0'', ''row1'', ''row2'']) ''q''
       [(''geo_context'', 1), (''temporal_context'', 1)] []
     = Inr [(2, 1), (1, 1), (0, 1)]
   \<and> multi_context_query emb_ok
       [''geo_context'' \<mapsto> fixed_collection [2, 1, 0] [0, 2, 4],
        ''temporal_context'' \<mapsto> fixed_collection [0, 1, 2] [0, 2, 4]]
       [''row0'', ''row1'', ''row2''] ''q''
       (Some [(''geo_context'', 1), (''temporal_context'', 1)]) 2
     = Inr [(2, ''row2''), (1, ''row1'')]
   \<and> first_met_order emb_ok
       [''geo_context'' \<mapsto> fixed_collection [2, 1, 0] [0, 2, 4],
        ''temporal_context'' \<mapsto> fixed_collection [0, 1, 2] [0, 2, 4]]
       (length [''row0'', ''row1'', ''row2'']) ''q''
       [(''geo_context'', 1), (''temporal_context'', 1)] = [2, 1, 0]
   \<and> (\<exists>ranked. map fst [(2 :: nat, ''row2''), (1, ''row1'')] = map fst (py_prefix ranked 2) \<and>
           mset ranked = mset [(2, 1), (1, 1), (0, 1 :: real)] \<and>
           sorted_wrt (\<lambda>a b. snd a \<ge> snd b) ranked \<and>
           (\<forall>s. map fst (filter (\<lambda>x. snd x = s) ranked)
                = filter (\<lambda>i. get_score [(2, 1), (1, 1), (0, 1)] i = s) [2, 1, 0]))"
proof -
  let ?cs = "[''geo_context'' \<mapsto> fixed_collection [2, 1, 0] [0, 2, 4],
        ''temporal_context'' \<mapsto> fixed_collection [0, 1, 2] [0, 2, 4]]"
  let ?df = "[''row0'', ''row1'', ''row2'']"
  let ?ws = "[(''geo_context'', 1 :: real), (''temporal_context'', 1)]"
  let ?scores = "[(2 :: nat, 1 :: real), (1, 1), (0, 1)]"
  have h1: "fuse_views emb_ok ?cs (length ?df) ''q'' ?ws [] = Inr ?scores"
    by (simp add: run_defs)
  have h2: "multi_context_query emb_ok ?cs ?df ''q'' (Some ?ws) 2
              = Inr [(2, ''row2''), (1, ''row1'')]"
    by (simp add: run_defs)
  note t = multi_context_query_order[OF h1 h2]
  from t have k: "first_met_order emb_ok ?cs (length ?df) ''q'' ?ws = [2, 1, 0]" by simp
  from t obtain ranked where
    r: "map fst [(2 :: nat, ''row2''), (1, ''row1'')] = map fst (py_prefix ranked 2)"
       "mset ranked = mset ?scores"
       "sorted_wrt (\<lambda>a b. snd a \<ge> snd b) ranked"
       "\<forall>s. map fst (filter (\<lambda>x. snd x = s) ranked)
                = filter (\<lambda>i. get_score ?scores i = s)
                    (first_met_order emb_ok ?cs (length ?df) ''q'' ?ws)"
    by blast
  from r(4) k have r4: "\<forall>s. map fst (filter (\<lambda>x. snd x = s) ranked)
                = filter (\<lambda>i. get_score ?scores i = s) [2, 1, 0]" by simp
  from h1 h2 k r(1,2,3) r4 show ?thesis by blast
qed

section \<open>Fusion over a single view\<close>












section \<open>The incident index\<close>

lemma log_lines_logger: "log_lines (logger level msg w) = log_lines w @ [(level, msg)]"
  by (simp add: logger_def)

lemma db_rows_logger: "db_rows (logger level msg w) = db_rows w"
  by (simp add: logger_def)

lemma pg_index_logger: "pg_index (logger level msg w) = pg_index w"
  by (simp add: logger_def)

lemmas store_defs = get_similar_incidents_def get_similar_incidents_try_def
  get_incident_vector_store_def VectorStoreConfig_def similarity_search_def
  vector_store_property_def add_documents_def delete_documents_def logger_def
  pg_args_of_def pg_memory_def pg_down_def rt0_def world0_def incident0_def
  incident_to_document_def dict_get_def doc_meta_def matches_id_def
  add_incident_to_vector_store_def update_incident_in_vector_store_def
  delete_incident_from_vector_store_def log_and_reraise_def cfg0_def world1_def search_query_def

subsection \<open>Similar incidents never raise\<close>

text \<open>
  C10. \<open>get_similar_incidents\<close> never raises, for every query, filter and \<open>k\<close>:
  it always returns a list. Whenever the body of its \<open>try\<close> raises, for whatever
  reason (no connection string, PGVector unreachable, a failing search, a document
  without one of the metadata keys), it logs the error and returns the empty list,
  which is also what it returns when the search finds no document: the caller sees
  the same value in both cases.
\<close>

theorem get_similar_incidents_never_raises:
  "(\<exists>metas. fst (get_similar_incidents rt pg query filters k w) = Inr metas) \<and>
   (\<forall>e w1. get_similar_incidents_try rt pg query filters k w = (Inl e, w1) \<longrightarrow>
      fst (get_similar_incidents rt pg query filters k w) = Inr [] \<and>
      (ERROR, ''Error searching for similar incidents'')
        \<in> set (log_lines (snd (get_similar_incidents rt pg query filters k w)))) \<and>
   (\<forall>w1. get_similar_incidents_try rt pg query filters k w = (Inr [], w1) \<longrightarrow>
      fst (get_similar_incidents rt pg query filters k w) = Inr [])"
proof (intro conjI allI impI)
  show "\<exists>metas. fst (get_similar_incidents rt pg query filters k w) = Inr metas"
    by (cases "get_similar_incidents_try rt pg query filters k w")
       (auto simp: get_similar_incidents_def split: sum.splits)
next
  fix e w1
  assume a: "get_similar_incidents_try rt pg query filters k w = (Inl e, w1)"
  then show "fst (get_similar_incidents rt pg query filters k w) = Inr []"
    by (simp add: get_similar_incidents_def)
  from a show "(ERROR, ''Error searching for similar incidents'')
        \<in> set (log_lines (snd (get_similar_incidents rt pg query filters k w)))"
    by (simp add: get_similar_incidents_def log_lines_logger)
next
  fix w1
  assume "get_similar_incidents_try rt pg query filters k w = (Inr [], w1)"
  then show "fst (get_similar_incidents rt pg query filters k w) = Inr []"
    by (simp add: get_similar_incidents_def)
qed

theorem get_similar_incidents_never_raises_witness:
  "fst (get_similar_incidents_try rt0 pg_down ''theft'' None 5 world0) = Inl BackendError
   \<and> fst (get_similar_incidents rt0 pg_down ''theft'' None 5 world0) = Inr []
   \<and> (ERROR, ''Error searching for similar incidents'')
        \<in> set (log_lines (snd (get_similar_incidents rt0 pg_down ''theft'' None 5 world0)))
   \<and> fst (get_similar_incidents_try rt0 (pg_memory (\<lambda>t. [1, 0, 0])) ''theft'' None 5 world0)
        = Inr []
   \<and> fst (get_similar_incidents rt0 (pg_memory (\<lambda>t. [1, 0, 0])) ''theft'' None 5 world0)
        = Inr []"
proof -
  let ?down = "get_similar_incidents_try rt0 pg_down ''theft'' None 5 world0"
  let ?zero = "get_similar_incidents_try rt0 (pg_memory (\<lambda>t. [1, 0, 0])) ''theft'' None 5 world0"
  have d: "fst ?down = Inl BackendError" by (simp add: store_defs)
  then have d': "?down = (Inl BackendError, snd ?down)" by (metis prod.collapse)
  have z: "fst ?zero = Inr []" by (simp add: store_defs)
  then have z': "?zero = (Inr [], snd ?zero)" by (metis prod.collapse)
  from get_similar_incidents_never_raises[of rt0 pg_down "''theft''" None 5 world0] d'
  have a: "fst (get_similar_incidents rt0 pg_down ''theft'' None 5 world0) = Inr [] \<and>
      (ERROR, ''Error searching for similar incidents'')
        \<in> set (log_lines (snd (get_similar_incidents rt0 pg_down ''theft'' None 5 world0)))"
    by blast
  from get_similar_incidents_never_raises[of rt0 "pg_memory (\<lambda>t. [1, 0, 0])" "''theft''" None 5
      world0] z'
  have b: "fst (get_similar_incidents rt0 (pg_memory (\<lambda>t. [1, 0, 0])) ''theft'' None 5 world0)
             = Inr []" by blast
  from a b d z show ?thesis by simp
qed

subsection \<open>Adding documents and the configured dimensionality\<close>

text \<open>
  C7, as stated, fails. The incident store is configured with 768 dimensions; the
  embedding model of this run gives every text a vector of length 3. The claim asks
  for a DimensionMismatch and an unchanged index; \<open>add_documents\<close> returns the id
  of the document and the index holds the new entry with its vector of length 3.
\<close>

theorem dimension_mismatch_counterexample:
  "embedding_dimensions cfg0 = 768 \<and>
   fst (add_documents (pg_memory (\<lambda>t. [1, 0, 0])) cfg0 [incident_to_document rt0 (incident0 1)] world0)
     = Inr [''u1''] \<and>
   map entry_vector (pg_index (snd (add_documents (pg_memory (\<lambda>t. [1, 0, 0])) cfg0
      [incident_to_document rt0 (incident0 1)] world0))) = [[1, 0, 0]] \<and>
   pg_index world0 = []"
  by (simp add: store_defs)


lemma pg_args_of_dimensions:
  "pg_args_of (cfg\<lparr>embedding_dimensions := d\<rparr>) = pg_args_of cfg"
  by (simp add: pg_args_of_def)

text \<open>
  C7, amended. \<open>add_documents\<close> makes no check of the vector length: its outcome
  does not depend on the configured \<open>embedding_dimensions\<close>. For no documents it
  logs a warning, returns the empty list and leaves the index unchanged. Otherwise it
  hands the documents to PGVector: when building PGVector or its \<open>add_documents\<close>
  raises, it logs the error, raises the same error and leaves the index unchanged;
  when PGVector returns, it returns the ids PGVector returned and the index is the one
  PGVector produced.
\<close>

theorem add_documents_ignores_dimensions:
  "add_documents pg (cfg\<lparr>embedding_dimensions := d\<rparr>) documents w = add_documents pg cfg documents w \<and>
   (documents = [] \<longrightarrow>
      fst (add_documents pg cfg documents w) = Inr [] \<and>
      pg_index (snd (add_documents pg cfg documents w)) = pg_index w \<and>
      (WARNING, ''No documents to add'')
        \<in> set (log_lines (snd (add_documents pg cfg documents w)))) \<and>
   (\<forall>e. documents \<noteq> [] \<and> \<not> pg_connected w \<and> pg_init pg (pg_args_of cfg) = Some e \<longrightarrow>
      fst (add_documents pg cfg documents w) = Inl e \<and>
      pg_index (snd (add_documents pg cfg documents w)) = pg_index w \<and>
      (ERROR, ''Error adding documents'')
        \<in> set (log_lines (snd (add_documents pg cfg documents w)))) \<and>
   (\<forall>e. documents \<noteq> [] \<and> (pg_connected w \<or> pg_init pg (pg_args_of cfg) = None) \<and>
        pg_add_documents pg (pg_args_of cfg) (pg_index w) documents = Inl e \<longrightarrow>
      fst (add_documents pg cfg documents w) = Inl e \<and>
      pg_index (snd (add_documents pg cfg documents w)) = pg_index w \<and>
      (ERROR, ''Error adding documents'')
        \<in> set (log_lines (snd (add_documents pg cfg documents w)))) \<and>
   (\<forall>doc_ids index'. documents \<noteq> [] \<and> (pg_connected w \<or> pg_init pg (pg_args_of cfg) = None) \<and>
        pg_add_documents pg (pg_args_of cfg) (pg_index w) documents = Inr (doc_ids, index') \<longrightarrow>
      fst (add_documents pg cfg documents w) = Inr doc_ids \<and>
      pg_index (snd (add_documents pg cfg documents w)) = index')"
proof (intro conjI allI impI)
  show "add_documents pg (cfg\<lparr>embedding_dimensions := d\<rparr>) documents w
               = add_documents pg cfg documents w"
    unfolding add_documents_def vector_store_property_def pg_args_of_dimensions ..
next
  assume "documents = []"
  then show "fst (add_documents pg cfg documents w) = Inr []"
    and "pg_index (snd (add_documents pg cfg documents w)) = pg_index w"
    and "(WARNING, ''No documents to add'')
        \<in> set (log_lines (snd (add_documents pg cfg documents w)))"
    by (simp_all add: add_documents_def pg_index_logger log_lines_logger)
next
  fix e
  assume "documents \<noteq> [] \<and> \<not> pg_connected w \<and> pg_init pg (pg_args_of cfg) = Some e"
  then show "fst (add_documents pg cfg documents w) = Inl e"
    and "pg_index (snd (add_documents pg cfg documents w)) = pg_index w"
    and "(ERROR, ''Error adding documents'')
        \<in> set (log_lines (snd (add_documents pg cfg documents w)))"
    by (simp_all add: add_documents_def vector_store_property_def logger_def)
next
  fix e
  assume "documents \<noteq> [] \<and> (pg_connected w \<or> pg_init pg (pg_args_of cfg) = None) \<and>
        pg_add_documents pg (pg_args_of cfg) (pg_index w) documents = Inl e"
  then show "fst (add_documents pg cfg documents w) = Inl e"
    and "pg_index (snd (add_documents pg cfg documents w)) = pg_index w"
    and "(ERROR, ''Error adding documents'')
        \<in> set (log_lines (snd (add_documents pg cfg documents w)))"
    by (auto simp: add_documents_def vector_store_property_def logger_def)
next
  fix doc_ids index'
  assume "documents \<noteq> [] \<and> (pg_connected w \<or> pg_init pg (pg_args_of cfg) = None) \<and>
        pg_add_documents pg (pg_args_of cfg) (pg_index w) documents = Inr (doc_ids, index')"
  then show "fst (add_documents pg cfg documents w) = Inr doc_ids"
    and "pg_index (snd (add_documents pg cfg documents w)) = index'"
    by (auto simp: add_documents_def vector_store_property_def logger_def)
qed


text \<open>
  The three outcomes: PGVector cannot be built, PGVector is built and its add raises,
  and an index that stores the document.
\<close>

theorem add_documents_ignores_dimensions_witness:
  "add_documents pg_down (cfg0\<lparr>embedding_dimensions := 3\<rparr>)
       [incident_to_document rt0 (incident0 2)] world0
     = add_documents pg_down cfg0 [incident_to_document rt0 (incident0 2)] world0
   \<and> fst (add_documents pg_down cfg0 [] world0) = Inr []
   \<and> pg_init pg_down (pg_args_of cfg0) = Some BackendError
   \<and> fst (add_documents pg_down cfg0 [incident_to_document rt0 (incident0 2)] world0)
       = Inl BackendError
   \<and> (ERROR, ''Error adding documents'')
       \<in> set (log_lines (snd (add_documents pg_down cfg0
            [incident_to_document rt0 (incident0 2)] world0)))
   \<and> pg_add_documents pg_down (pg_args_of cfg0) (pg_index (world0\<lparr>pg_connected := True\<rparr>))
        [incident_to_document rt0 (incident0 2)] = Inl BackendError
   \<and> fst (add_documents pg_down cfg0 [incident_to_document rt0 (incident0 2)]
        (world0\<lparr>pg_connected := True\<rparr>)) = Inl BackendError
   \<and> (ERROR, ''Error adding documents'')
       \<in> set (log_lines (snd (add_documents pg_down cfg0
            [incident_to_document rt0 (incident0 2)] (world0\<lparr>pg_connected := True\<rparr>))))
   \<and> pg_add_documents (pg_memory (\<lambda>t. [1, 0, 0])) (pg_args_of cfg0) (pg_index world0)
        [incident_to_document rt0 (incident0 2)]
       = Inr ([''u11''], [\<lparr>entry_doc = incident_to_document rt0 (incident0 2),
                            entry_vector = [1, 0, 0]\<rparr>])
   \<and> fst (add_documents (pg_memory (\<lambda>t. [1, 0, 0])) cfg0
        [incident_to_document rt0 (incident0 2)] world0) = Inr [''u11'']
   \<and> pg_index (snd (add_documents (pg_memory (\<lambda>t. [1, 0, 0])) cfg0
        [incident_to_document rt0 (incident0 2)] world0))
       = [\<lparr>entry_doc = incident_to_document rt0 (incident0 2), entry_vector = [1, 0, 0]\<rparr>]"
proof -
  let ?docs = "[incident_to_document rt0 (incident0 2)]"
  let ?wc = "world0\<lparr>pg_connected := True\<rparr>"
  let ?mem = "pg_memory (\<lambda>t. [1, 0, 0])"
  let ?entry = "\<lparr>entry_doc = incident_to_document rt0 (incident0 2), entry_vector = [1, 0, 0]\<rparr>"
  note down = add_documents_ignores_dimensions[where pg = pg_down and cfg = cfg0 and d = 3
      and documents = ?docs and w = world0]
  note empty = add_documents_ignores_dimensions[where pg = pg_down and cfg = cfg0 and d = 3
      and documents = "[]" and w = world0]
  note conn = add_documents_ignores_dimensions[where pg = pg_down and cfg = cfg0 and d = 3
      and documents = ?docs and w = ?wc]
  note mem = add_documents_ignores_dimensions[where pg = ?mem and cfg = cfg0 and d = 3
      and documents = ?docs and w = world0]
  have i: "pg_init pg_down (pg_args_of cfg0) = Some BackendError" by (simp add: pg_down_def)
  have h3: "?docs \<noteq> [] \<and> \<not> pg_connected world0 \<and> pg_init pg_down (pg_args_of cfg0) = Some BackendError"
    by (simp add: pg_down_def world0_def)
  have a4: "pg_add_documents pg_down (pg_args_of cfg0) (pg_index ?wc) ?docs = Inl BackendError"
    by (simp add: pg_down_def)
  then have h4: "?docs \<noteq> [] \<and> (pg_connected ?wc \<or> pg_init pg_down (pg_args_of cfg0) = None) \<and>
      pg_add_documents pg_down (pg_args_of cfg0) (pg_index ?wc) ?docs = Inl BackendError"
    by simp
  have a5: "pg_add_documents ?mem (pg_args_of cfg0) (pg_index world0) ?docs = Inr ([''u11''], [?entry])"
    by (simp add: store_defs eval_nat_numeral)
  then have h5: "?docs \<noteq> [] \<and> (pg_connected world0 \<or> pg_init ?mem (pg_args_of cfg0) = None) \<and>
      pg_add_documents ?mem (pg_args_of cfg0) (pg_index world0) ?docs = Inr ([''u11''], [?entry])"
    by (simp add: pg_memory_def)
  from down have c1: "add_documents pg_down (cfg0\<lparr>embedding_dimensions := 3\<rparr>) ?docs world0
      = add_documents pg_down cfg0 ?docs world0" by blast
  from empty have c2: "fst (add_documents pg_down cfg0 [] world0) = Inr []" by blast
  from down h3 have c3: "fst (add_documents pg_down cfg0 ?docs world0) = Inl BackendError \<and>
      (ERROR, ''Error adding documents'')
        \<in> set (log_lines (snd (add_documents pg_down cfg0 ?docs world0)))" by blast
  from conn h4 have c4: "fst (add_documents pg_down cfg0 ?docs ?wc) = Inl BackendError \<and>
      (ERROR, ''Error adding documents'')
        \<in> set (log_lines (snd (add_documents pg_down cfg0 ?docs ?wc)))" by blast
  from mem h5 have c5: "fst (add_documents ?mem cfg0 ?docs world0) = Inr [''u11''] \<and>
      pg_index (snd (add_documents ?mem cfg0 ?docs world0)) = [?entry]" by blast
  from c1 c2 i c3 a4 c4 a5 c5 show ?thesis by blast
qed

subsection \<open>Sync failures do not undo the primary store\<close>

text \<open>The index operations never touch the rows of the primary store.\<close>

lemma db_rows_get_store: "db_rows (snd (get_incident_vector_store rt w)) = db_rows w"
  by (simp add: get_incident_vector_store_def db_rows_logger split: option.splits sum.splits)

lemma db_rows_property: "db_rows (snd (vector_store_property pg cfg w)) = db_rows w"
  by (simp add: vector_store_property_def db_rows_logger split: option.splits)

lemma db_rows_add_documents: "db_rows (snd (add_documents pg cfg docs w)) = db_rows w"
proof -
  have "db_rows (snd (vector_store_property pg cfg
          (logger INFO ''Adding documents to vector store'' w))) = db_rows w"
    by (simp add: db_rows_property db_rows_logger)
  then show ?thesis
    by (auto simp: add_documents_def db_rows_logger split: prod.splits sum.splits)
qed

lemma db_rows_delete_documents: "db_rows (snd (delete_documents pg cfg dids flt w)) = db_rows w"
  using db_rows_property[of pg cfg w]
  by (auto simp: delete_documents_def db_rows_logger split: prod.splits sum.splits)

lemma db_rows_similarity_search: "db_rows (snd (similarity_search pg cfg q k flt w)) = db_rows w"
  using db_rows_property[of pg cfg w]
  by (auto simp: similarity_search_def db_rows_logger split: prod.splits sum.splits)

lemma db_rows_add_incident:
  "db_rows (snd (add_incident_to_vector_store rt pg inc w)) = db_rows w"
proof (cases "get_incident_vector_store rt w")
  case (Pair r w1)
  with db_rows_get_store[of rt w] have w1: "db_rows w1 = db_rows w" by simp
  show ?thesis
  proof (cases r)
    case (Inl e)
    with Pair w1 show ?thesis
      by (simp add: add_incident_to_vector_store_def log_and_reraise_def db_rows_logger)
  next
    case (Inr cfg)
    with Pair w1 db_rows_add_documents[of pg cfg "[incident_to_document rt inc]" w1]
    show ?thesis
      by (auto simp: add_incident_to_vector_store_def log_and_reraise_def db_rows_logger
          split: prod.splits sum.splits)
  qed
qed

lemma db_rows_delete_incident:
  "db_rows (snd (delete_incident_from_vector_store rt pg u w)) = db_rows w"
proof (cases "get_incident_vector_store rt w")
  case (Pair r w1)
  with db_rows_get_store[of rt w] have w1: "db_rows w1 = db_rows w" by simp
  show ?thesis
  proof (cases r)
    case (Inl e)
    with Pair w1 show ?thesis
      by (simp add: delete_incident_from_vector_store_def log_and_reraise_def db_rows_logger)
  next
    case (Inr cfg)
    with Pair w1 db_rows_delete_documents[of pg cfg None "[''id'' \<mapsto> str_uuid rt u]" w1]
    show ?thesis
      by (auto simp: delete_incident_from_vector_store_def log_and_reraise_def db_rows_logger
          split: prod.splits sum.splits)
  qed
qed

lemma db_rows_update_incident:
  "db_rows (snd (update_incident_in_vector_store rt pg inc w)) = db_rows w"
proof (cases "get_incident_vector_store rt w")
  case (Pair r w1)
  with db_rows_get_store[of rt w] have w1: "db_rows w1 = db_rows w" by simp
  show ?thesis
  proof (cases r)
    case (Inl e)
    with Pair w1 show ?thesis
      by (simp add: update_incident_in_vector_store_def log_and_reraise_def db_rows_logger)
  next
    case (Inr cfg)
    obtain r2 w2 where d: "delete_documents pg cfg None [''id'' \<mapsto> str_uuid rt (inc_id inc)] w1
        = (r2, w2)" by (cases "delete_documents pg cfg None [''id'' \<mapsto> str_uuid rt (inc_id inc)] w1")
    with db_rows_delete_documents[of pg cfg None "[''id'' \<mapsto> str_uuid rt (inc_id inc)]" w1] w1
    have w2: "db_rows w2 = db_rows w" by simp
    show ?thesis
    proof (cases r2)
      case (Inl e)
      with Pair Inr d w2 show ?thesis
        by (simp add: update_incident_in_vector_store_def log_and_reraise_def db_rows_logger)
    next
      case (Inr u)
      with Pair \<open>r = Inr cfg\<close> d w2 db_rows_add_documents[of pg cfg "[incident_to_document rt inc]" w2]
      show ?thesis
        by (auto simp: update_incident_in_vector_store_def log_and_reraise_def db_rows_logger
            split: prod.splits sum.splits)
    qed
  qed
qed

text \<open>
  C6. When the commit of the primary store succeeds and the following sync call
  raises (the add after a create, the delete-then-add after an update, the delete
  after a delete), the operation still returns its success value (the incident,
  the updated incident, \<open>True\<close>), the rows of the primary store are those of the
  committed mutation, and the failure is logged at the service layer.
\<close>

theorem sync_failure_is_swallowed:
  "(\<forall>inc e w1. make_incident incident_data = Inr inc \<and>
       add_incident_to_vector_store rt pg inc (w\<lparr>db_rows := (db_rows w)(inc_id inc \<mapsto> inc)\<rparr>)
         = (Inl e, w1) \<longrightarrow>
       fst (create_incident rt pg False make_incident incident_data w) = Inr inc \<and>
       db_rows (snd (create_incident rt pg False make_incident incident_data w))
         = (db_rows w)(inc_id inc \<mapsto> inc) \<and>
       (ERROR, ''Vector store update failed, but incident was created'')
         \<in> set (log_lines (snd (create_incident rt pg False make_incident incident_data w)))) \<and>
   (\<forall>old inc e w1. db_rows w incident_id = Some old \<and> apply_update update_data old = Inr inc \<and>
       update_incident_in_vector_store rt pg inc (w\<lparr>db_rows := (db_rows w)(incident_id \<mapsto> inc)\<rparr>)
         = (Inl e, w1) \<longrightarrow>
       fst (update_incident rt pg False apply_update incident_id update_data w) = Inr (Some inc) \<and>
       db_rows (snd (update_incident rt pg False apply_update incident_id update_data w))
         = (db_rows w)(incident_id \<mapsto> inc) \<and>
       (ERROR, ''Vector store update failed, but incident was updated'')
         \<in> set (log_lines (snd (update_incident rt pg False apply_update incident_id update_data w)))) \<and>
   (\<forall>old e w1. db_rows w incident_id = Some old \<and>
       delete_incident_from_vector_store rt pg incident_id
           (w\<lparr>db_rows := (db_rows w)(incident_id := None)\<rparr>) = (Inl e, w1) \<longrightarrow>
       fst (delete_incident rt pg False incident_id w) = Inr True \<and>
       db_rows (snd (delete_incident rt pg False incident_id w)) = (db_rows w)(incident_id := None) \<and>
       (ERROR, ''Vector store deletion failed, but incident was deleted'')
         \<in> set (log_lines (snd (delete_incident rt pg False incident_id w))))"
proof (intro conjI allI impI)
  fix inc e w1
  assume a: "make_incident incident_data = Inr inc \<and>
       add_incident_to_vector_store rt pg inc (w\<lparr>db_rows := (db_rows w)(inc_id inc \<mapsto> inc)\<rparr>)
         = (Inl e, w1)"
  with db_rows_add_incident[of rt pg inc "w\<lparr>db_rows := (db_rows w)(inc_id inc \<mapsto> inc)\<rparr>"]
  have w1: "db_rows w1 = (db_rows w)(inc_id inc \<mapsto> inc)" by simp
  from a show "fst (create_incident rt pg False make_incident incident_data w) = Inr inc"
    by (simp add: create_incident_def)
  from a w1 show "db_rows (snd (create_incident rt pg False make_incident incident_data w))
         = (db_rows w)(inc_id inc \<mapsto> inc)"
    by (simp add: create_incident_def db_rows_logger)
  from a show "(ERROR, ''Vector store update failed, but incident was created'')
         \<in> set (log_lines (snd (create_incident rt pg False make_incident incident_data w)))"
    by (simp add: create_incident_def log_lines_logger)
next
  fix old inc e w1
  assume a: "db_rows w incident_id = Some old \<and> apply_update update_data old = Inr inc \<and>
       update_incident_in_vector_store rt pg inc (w\<lparr>db_rows := (db_rows w)(incident_id \<mapsto> inc)\<rparr>)
         = (Inl e, w1)"
  with db_rows_update_incident[of rt pg inc "w\<lparr>db_rows := (db_rows w)(incident_id \<mapsto> inc)\<rparr>"]
  have w1: "db_rows w1 = (db_rows w)(incident_id \<mapsto> inc)" by simp
  from a show "fst (update_incident rt pg False apply_update incident_id update_data w)
      = Inr (Some inc)"
    by (simp add: update_incident_def)
  from a w1 show "db_rows (snd (update_incident rt pg False apply_update incident_id update_data w))
         = (db_rows w)(incident_id \<mapsto> inc)"
    by (simp add: update_incident_def db_rows_logger)
  from a show "(ERROR, ''Vector store update failed, but incident was updated'')
         \<in> set (log_lines (snd (update_incident rt pg False apply_update incident_id update_data w)))"
    by (simp add: update_incident_def log_lines_logger)
next
  fix old e w1
  assume a: "db_rows w incident_id = Some old \<and>
       delete_incident_from_vector_store rt pg incident_id
           (w\<lparr>db_rows := (db_rows w)(incident_id := None)\<rparr>) = (Inl e, w1)"
  with db_rows_delete_incident[of rt pg incident_id "w\<lparr>db_rows := (db_rows w)(incident_id := None)\<rparr>"]
  have w1: "db_rows w1 = (db_rows w)(incident_id := None)" by simp
  from a show "fst (delete_incident rt pg False incident_id w) = Inr True"
    by (simp add: delete_incident_def)
  from a w1 show "db_rows (snd (delete_incident rt pg False incident_id w))
      = (db_rows w)(incident_id := None)"
    by (simp add: delete_incident_def db_rows_logger)
  from a show "(ERROR, ''Vector store deletion failed, but incident was deleted'')
         \<in> set (log_lines (snd (delete_incident rt pg False incident_id w)))"
    by (simp add: delete_incident_def log_lines_logger)
qed

text \<open>PGVector is unreachable while an incident is created, updated and deleted.\<close>

theorem sync_failure_is_swallowed_witness:
  "fst (add_incident_to_vector_store rt0 pg_down (incident0 1)
         (world0\<lparr>db_rows := (db_rows world0)(inc_id (incident0 1) \<mapsto> incident0 1)\<rparr>))
     = Inl BackendError
   \<and> fst (create_incident rt0 pg_down False (\<lambda>d. Inr (incident0 d)) 1 world0) = Inr (incident0 1)
   \<and> db_rows (snd (create_incident rt0 pg_down False (\<lambda>d. Inr (incident0 d)) 1 world0))
       = (db_rows world0)(inc_id (incident0 1) \<mapsto> incident0 1)
   \<and> (ERROR, ''Vector store update failed, but incident was created'')
       \<in> set (log_lines (snd (create_incident rt0 pg_down False (\<lambda>d. Inr (incident0 d)) 1 world0)))
   \<and> fst (delete_incident_from_vector_store rt0 pg_down 1
         (world0\<lparr>db_rows := [1 \<mapsto> incident0 1]\<rparr>
            \<lparr>db_rows := (db_rows (world0\<lparr>db_rows := [1 \<mapsto> incident0 1]\<rparr>))(1 := None)\<rparr>))
     = Inl BackendError
   \<and> fst (delete_incident rt0 pg_down False 1 (world0\<lparr>db_rows := [1 \<mapsto> incident0 1]\<rparr>)) = Inr True
   \<and> db_rows (snd (delete_incident rt0 pg_down False 1 (world0\<lparr>db_rows := [1 \<mapsto> incident0 1]\<rparr>)))
       = (db_rows (world0\<lparr>db_rows := [1 \<mapsto> incident0 1]\<rparr>))(1 := None)
   \<and> fst (update_incident_in_vector_store rt0 pg_down ((incident0 1)\<lparr>inc_title := ''Robbery''\<rparr>)
         (world0\<lparr>db_rows := [1 \<mapsto> incident0 1]\<rparr>
            \<lparr>db_rows := (db_rows (world0\<lparr>db_rows := [1 \<mapsto> incident0 1]\<rparr>))
                (1 \<mapsto> (incident0 1)\<lparr>inc_title := ''Robbery''\<rparr>)\<rparr>))
     = Inl BackendError
   \<and> fst (update_incident rt0 pg_down False (\<lambda>d old. Inr (old\<lparr>inc_title := d\<rparr>)) 1 ''Robbery''
         (world0\<lparr>db_rows := [1 \<mapsto> incident0 1]\<rparr>))
     = Inr (Some ((incident0 1)\<lparr>inc_title := ''Robbery''\<rparr>))
   \<and> db_rows (snd (update_incident rt0 pg_down False (\<lambda>d old. Inr (old\<lparr>inc_title := d\<rparr>)) 1
         ''Robbery'' (world0\<lparr>db_rows := [1 \<mapsto> incident0 1]\<rparr>)))
       = (db_rows (world0\<lparr>db_rows := [1 \<mapsto> incident0 1]\<rparr>))
           (1 \<mapsto> (incident0 1)\<lparr>inc_title := ''Robbery''\<rparr>)"
proof -
  let ?mk = "\<lambda>d. Inr (incident0 d) :: py_error + incident"
  let ?w1 = "world0\<lparr>db_rows := (db_rows world0)(inc_id (incident0 1) \<mapsto> incident0 1)\<rparr>"
  let ?add = "add_incident_to_vector_store rt0 pg_down (incident0 1) ?w1"
  have a: "fst ?add = Inl BackendError" by (simp add: store_defs)
  then have a': "?mk 1 = Inr (incident0 1) \<and> ?add = (Inl BackendError, snd ?add)"
    by (metis prod.collapse)
  let ?w = "world0\<lparr>db_rows := [1 \<mapsto> incident0 1]\<rparr>"
  let ?del = "delete_incident_from_vector_store rt0 pg_down 1
                (?w\<lparr>db_rows := (db_rows ?w)(1 := None)\<rparr>)"
  have d: "fst ?del = Inl BackendError" by (simp add: store_defs)
  have "db_rows ?w 1 = Some (incident0 1)" by simp
  with d have d': "db_rows ?w 1 = Some (incident0 1) \<and> ?del = (Inl BackendError, snd ?del)"
    by (metis prod.collapse)
  let ?ap = "\<lambda>d old. Inr (old\<lparr>inc_title := d\<rparr>) :: py_error + incident"
  let ?inc = "(incident0 1)\<lparr>inc_title := ''Robbery''\<rparr>"
  let ?upd = "update_incident_in_vector_store rt0 pg_down ?inc
                (?w\<lparr>db_rows := (db_rows ?w)(1 \<mapsto> ?inc)\<rparr>)"
  have u: "fst ?upd = Inl BackendError" by (simp add: store_defs)
  have "db_rows ?w 1 = Some (incident0 1) \<and> ?ap ''Robbery'' (incident0 1) = Inr ?inc" by simp
  with u have u': "db_rows ?w 1 = Some (incident0 1) \<and> ?ap ''Robbery'' (incident0 1) = Inr ?inc
      \<and> ?upd = (Inl BackendError, snd ?upd)"
    by (metis prod.collapse)
  note t2 = sync_failure_is_swallowed[where rt = rt0 and pg = pg_down and apply_update = ?ap
      and incident_id = 1 and update_data = "''Robbery''" and w = ?w,
      THEN conjunct2, THEN conjunct1, rule_format, OF u']
  note t1 = sync_failure_is_swallowed[where rt = rt0 and pg = pg_down and make_incident = ?mk
      and incident_data = 1 and w = world0, THEN conjunct1, rule_format, OF a']
  note t3 = sync_failure_is_swallowed[where rt = rt0 and pg = pg_down
      and incident_id = 1 and w = ?w, THEN conjunct2, THEN conjunct2, rule_format, OF d']
  from a d u t1 t2 t3 show ?thesis by blast
qed

subsection \<open>Similar incidents exclude the source\<close>

lemma get_similar_incidents_total:
  "\<exists>found w1. get_similar_incidents rt pg q f k w = (Inr found, w1)"
  by (cases "get_similar_incidents_try rt pg q f k w")
     (auto simp: get_similar_incidents_def split: sum.splits)

lemma db_rows_get_similar: "db_rows (snd (get_similar_incidents rt pg q f k w)) = db_rows w"
proof -
  have t: "db_rows (snd (get_similar_incidents_try rt pg q f k w)) = db_rows w"
  proof (cases "get_incident_vector_store rt w")
    case (Pair r w1)
    with db_rows_get_store[of rt w] have w1: "db_rows w1 = db_rows w" by simp
    show ?thesis
    proof (cases r)
      case (Inl e)
      with Pair w1 show ?thesis by (simp add: get_similar_incidents_try_def)
    next
      case (Inr cfg)
      let ?sf = "case f of None \<Rightarrow> Map.empty
                 | Some f \<Rightarrow> if f = Map.empty then Map.empty else f"
      obtain r2 w2 where s: "similarity_search pg cfg q k ?sf w1 = (r2, w2)"
        by (cases "similarity_search pg cfg q k ?sf w1")
      with db_rows_similarity_search[of pg cfg q k ?sf w1] w1 have "db_rows w2 = db_rows w"
        by simp
      with Pair Inr s show ?thesis
        by (cases r2) (simp_all add: get_similar_incidents_try_def Let_def)
    qed
  qed
  then show ?thesis
    by (auto simp: get_similar_incidents_def db_rows_logger split: prod.splits sum.splits)
qed

lemma length_py_prefix: "0 \<le> k \<Longrightarrow> length (py_prefix xs k) \<le> nat k"
  by (simp add: py_prefix_def)

lemma set_py_prefix: "set (py_prefix xs k) \<subseteq> set xs"
  by (auto simp: py_prefix_def dest: in_set_takeD)

text \<open>
  The list the route computes in lines 415 to 429: at most \<open>k\<close> entries, none with
  the id of the source.
\<close>

lemma similar_meta_excludes_source:
  "0 \<le> k \<Longrightarrow>
   length (py_prefix (filter (\<lambda>inc. sm_id inc \<noteq> s) found) k) \<le> nat k \<and>
   s \<notin> sm_id ` set (py_prefix (filter (\<lambda>inc. sm_id inc \<noteq> s) found) k)"
  using set_py_prefix[of "filter (\<lambda>inc. sm_id inc \<noteq> s) found" k]
  by (auto simp: length_py_prefix)

text \<open>
  The route then resolves the ids and builds its answer, for which it calls
  \<open>AnalyticsService.analyze_incident_similarities\<close>. For every incident present in
  the primary store the route ends in status 500.
\<close>

lemma route_raises_for_every_incident:
  assumes "1 \<le> k" "k \<le> 20" "parse_uuid rt incident_id = Some u" "db_rows w u = Some source"
  shows "fst (get_similar_incidents_analysis rt pg incident_id k w) = Inl HTTP_500"
proof -
  from get_similar_incidents_total[of rt pg "search_query source" None "k + 1" w]
  obtain found w1 where
    g: "get_similar_incidents rt pg (search_query source) None (k + 1) w = (Inr found, w1)"
    by blast
  let ?metas = "py_prefix (filter (\<lambda>inc. sm_id inc \<noteq> str_uuid rt u) found) k"
  show ?thesis
  proof (cases "resolve_similar rt (db_rows w1) ?metas")
    case (Inl e)
    with assms g show ?thesis
      by (simp add: get_similar_incidents_analysis_def Let_def)
  next
    case (Inr data)
    with assms g show ?thesis
      by (simp add: get_similar_incidents_analysis_def Let_def analyze_incident_similarities_def)
  qed
qed

text \<open>
  C8. The lookup is to return at most \<open>k\<close> similar incidents without the source.
  Three incidents are stored and indexed and the two most similar to incident 1 are
  asked for. The search returns incidents 1, 2 and 3, the route drops incident 1 and
  keeps incidents 2 and 3, and the call of the analysis method, which
  \<open>AnalyticsService\<close> does not define, raises AttributeError: the route answers
  with status 500 and returns no list.
\<close>

theorem similar_incidents_route_fails:
  "fst (get_similar_incidents rt0 (pg_memory (\<lambda>t. [1, 0, 0])) (search_query (incident0 1)) None
          (2 + 1) world1)
     = Inr [\<lparr>sm_id = ''u1'', sm_score = ''1.0'', sm_type = ''theft'', sm_date = ''2024-01-01'',
             sm_severity = ''high'', sm_district = ''north''\<rparr>,
            \<lparr>sm_id = ''u11'', sm_score = ''1.0'', sm_type = ''theft'', sm_date = ''2024-01-01'',
             sm_severity = ''high'', sm_district = ''north''\<rparr>,
            \<lparr>sm_id = ''u111'', sm_score = ''1.0'', sm_type = ''theft'', sm_date = ''2024-01-01'',
             sm_severity = ''high'', sm_district = ''north''\<rparr>]
   \<and> (analyze_incident_similarities (incident0 1)
          [(incident0 2, ''1.0''), (incident0 3, ''1.0'')] :: py_error + unit) = Inl AttributeError
   \<and> fst (get_similar_incidents_analysis rt0 (pg_memory (\<lambda>t. [1, 0, 0])) ''u1'' 2 world1
          :: (http_error + unit similar_response) \<times> index_entry list world)
     = Inl HTTP_500"
  by (simp add: get_similar_incidents_analysis_def analyze_incident_similarities_def
      store_defs py_prefix_def eval_nat_numeral)

end
